theory Spec2Isabelle
  imports Complex_Main "HOL-Library.Sublist" "HOL-Library.List_Lexorder" "HOL-Library.Char_ord"
begin

section \<open>Python values\<close>

text \<open>
  A Python \<^verbatim>\<open>float\<close> is either finite or one of the three special values. The finite
  values are carried as rationals; only the classification into finite, NaN and infinite
  and the sign matter to the functions below.
\<close>

datatype pyfloat = Finite rat | NaN | PosInf | NegInf

fun isnan :: "pyfloat \<Rightarrow> bool" where
  "isnan NaN = True"
| "isnan _ = False"

fun isinf :: "pyfloat \<Rightarrow> bool" where
  "isinf PosInf = True"
| "isinf NegInf = True"
| "isinf _ = False"

text \<open>
  The values \<^verbatim>\<open>sanitize_for_json\<close> distinguishes with \<^verbatim>\<open>isinstance\<close>: \<^verbatim>\<open>None\<close>,
  \<^verbatim>\<open>bool\<close> (a subclass of \<^verbatim>\<open>int\<close>), \<^verbatim>\<open>int\<close>, \<^verbatim>\<open>float\<close>, \<^verbatim>\<open>str\<close>,
  \<^verbatim>\<open>dict\<close> (insertion-ordered, so an association list), \<^verbatim>\<open>list\<close>, \<^verbatim>\<open>tuple\<close>, and any
  other object. Of another object the function observes two things only: whether
  \<^verbatim>\<open>json.dumps\<close> accepts it, and what \<^verbatim>\<open>str(obj)\<close> gives (\<open>None\<close> when it raises).
\<close>

datatype pyval =
    PNone
  | PBool bool
  | PInt int
  | PFloat pyfloat
  | PStr string
  | PDict "(string \<times> pyval) list"
  | PList "pyval list"
  | PTuple "pyval list"
  | PObj bool "string option"

section \<open>json_utils.py\<close>

text \<open>
  \<^verbatim>\<open>is_json_serializable\<close> is called on strings and on objects of no other handled type.
  \<^verbatim>\<open>json.dumps\<close> encodes every \<^verbatim>\<open>str\<close>; for another object the answer is the
  object's own.
\<close>

fun is_json_serializable :: "pyval \<Rightarrow> bool" where
  "is_json_serializable (PObj ok _) = ok"
| "is_json_serializable _ = True"

fun sanitize_for_json :: "pyfloat \<Rightarrow> string \<Rightarrow> int \<Rightarrow> int \<Rightarrow> pyval \<Rightarrow> pyval" where
  "sanitize_for_json default_number default_str max_depth current_depth obj =
     (if current_depth > max_depth then PNone
      else case obj of
        PNone \<Rightarrow> PNone
      | PBool b \<Rightarrow> PBool b
      | PInt i \<Rightarrow> PInt i
      | PFloat f \<Rightarrow> (if isnan f \<or> isinf f then PFloat default_number else PFloat f)
      | PStr s \<Rightarrow> (if s = [] \<or> \<not> is_json_serializable (PStr s) then PStr default_str else PStr s)
      | PDict kvs \<Rightarrow>
          PDict (map (\<lambda>kv. (fst kv,
                   sanitize_for_json default_number default_str max_depth (current_depth + 1) (snd kv))) kvs)
      | PList xs \<Rightarrow>
          PList (map (sanitize_for_json default_number default_str max_depth (current_depth + 1)) xs)
      | PTuple xs \<Rightarrow>
          PList (map (sanitize_for_json default_number default_str max_depth (current_depth + 1)) xs)
      | PObj ok s \<Rightarrow>
          (if is_json_serializable (PObj ok s) then PObj ok s
           else case s of Some t \<Rightarrow> PStr t | None \<Rightarrow> PNone))"

section \<open>Python numbers\<close>

text \<open>
  A quantity or a total is an \<^verbatim>\<open>int\<close> or a \<^verbatim>\<open>float\<close>. Arithmetic on the special values of
  \<^verbatim>\<open>float\<close> follows IEEE 754 (NaN absorbs, infinity times zero is NaN, opposite infinities
  add to NaN; every comparison with NaN is false); on finite values it is the exact
  arithmetic of the rationals, and \<^verbatim>\<open>round(x, 2)\<close> rounds to the nearest hundredth, a tie
  to the even one.
\<close>

datatype pynum = IntNum int | FloatNum pyfloat

fun to_float :: "pynum \<Rightarrow> pyfloat" where
  "to_float (IntNum i) = Finite (of_int i)"
| "to_float (FloatNum f) = f"

fun float_le_zero :: "pyfloat \<Rightarrow> bool" where
  "float_le_zero (Finite r) = (r \<le> 0)"
| "float_le_zero NegInf = True"
| "float_le_zero _ = False"

fun float_gt_zero :: "pyfloat \<Rightarrow> bool" where
  "float_gt_zero (Finite r) = (r > 0)"
| "float_gt_zero PosInf = True"
| "float_gt_zero _ = False"

definition num_le_zero :: "pynum \<Rightarrow> bool" where
  "num_le_zero n = float_le_zero (to_float n)"

definition num_gt_zero :: "pynum \<Rightarrow> bool" where
  "num_gt_zero n = float_gt_zero (to_float n)"

fun float_truthy :: "pyfloat \<Rightarrow> bool" where
  "float_truthy (Finite r) = (r \<noteq> 0)"
| "float_truthy _ = True"

fun float_add :: "pyfloat \<Rightarrow> pyfloat \<Rightarrow> pyfloat" where
  "float_add (Finite a) (Finite b) = Finite (a + b)"
| "float_add NaN _ = NaN"
| "float_add _ NaN = NaN"
| "float_add PosInf NegInf = NaN"
| "float_add NegInf PosInf = NaN"
| "float_add PosInf _ = PosInf"
| "float_add NegInf _ = NegInf"
| "float_add _ PosInf = PosInf"
| "float_add _ NegInf = NegInf"

fun float_neg :: "pyfloat \<Rightarrow> pyfloat" where
  "float_neg (Finite a) = Finite (- a)"
| "float_neg NaN = NaN"
| "float_neg PosInf = NegInf"
| "float_neg NegInf = PosInf"

fun float_mul :: "pyfloat \<Rightarrow> pyfloat \<Rightarrow> pyfloat" where
  "float_mul (Finite a) (Finite b) = Finite (a * b)"
| "float_mul NaN _ = NaN"
| "float_mul _ NaN = NaN"
| "float_mul PosInf (Finite b) = (if b = 0 then NaN else if b > 0 then PosInf else NegInf)"
| "float_mul NegInf (Finite b) = (if b = 0 then NaN else if b > 0 then NegInf else PosInf)"
| "float_mul (Finite a) PosInf = (if a = 0 then NaN else if a > 0 then PosInf else NegInf)"
| "float_mul (Finite a) NegInf = (if a = 0 then NaN else if a > 0 then NegInf else PosInf)"
| "float_mul PosInf PosInf = PosInf"
| "float_mul PosInf NegInf = NegInf"
| "float_mul NegInf PosInf = NegInf"
| "float_mul NegInf NegInf = PosInf"

definition round_half_even :: "rat \<Rightarrow> int" where
  "round_half_even y =
     (let fl = \<lfloor>y\<rfloor>; d = y - of_int fl
      in if d < 1 / 2 then fl else if d > 1 / 2 then fl + 1
         else if even fl then fl else fl + 1)"

fun round2 :: "pyfloat \<Rightarrow> pyfloat" where
  "round2 (Finite r) = Finite (of_int (round_half_even (r * 100)) / 100)"
| "round2 f = f"

fun num_add :: "pynum \<Rightarrow> pynum \<Rightarrow> pynum" where
  "num_add (IntNum a) (IntNum b) = IntNum (a + b)"
| "num_add a b = FloatNum (float_add (to_float a) (to_float b))"

text \<open>\<^verbatim>\<open>sum(...)\<close> starts from the \<^verbatim>\<open>int\<close> 0 and adds from the left.\<close>

definition py_sum :: "pynum list \<Rightarrow> pynum" where
  "py_sum xs = foldl num_add (IntNum 0) xs"

section \<open>Python strings\<close>

text \<open>
  A \<^verbatim>\<open>str\<close> is a list of characters, one \<open>char\<close> per code point. The catalog and the
  messages of the program use Latin-1 letters only, so a code point is a value below 256 and
  \<open>length\<close> counts what \<^verbatim>\<open>len\<close> counts. The three Latin-1 code points whose upper case
  is not one Latin-1 character (\<open>0xB5\<close>, \<open>0xDF\<close>, \<open>0xFF\<close>) are left unchanged by
  \<open>upper\<close> below; strings with them are outside the model.
\<close>

definition upper_char :: "char \<Rightarrow> char" where
  "upper_char c =
     (let n = (of_char c :: nat)
      in if (97 \<le> n \<and> n \<le> 122) \<or> (224 \<le> n \<and> n \<le> 254 \<and> n \<noteq> 247)
         then char_of (n - 32) else c)"

definition upper :: "string \<Rightarrow> string" where
  "upper s = map upper_char s"

text \<open>\<^verbatim>\<open>a in b\<close> for two strings: \<open>a\<close> occurs in \<open>b\<close> as a contiguous run.\<close>

fun str_in :: "string \<Rightarrow> string \<Rightarrow> bool" where
  "str_in a [] = (a = [])"
| "str_in a (y # ys) = (prefix a (y # ys) \<or> str_in a ys)"

text \<open>\<^verbatim>\<open>str.isspace\<close> on one Latin-1 character, \<^verbatim>\<open>str.strip()\<close> and \<^verbatim>\<open>str.split()\<close>.\<close>

definition is_space :: "char \<Rightarrow> bool" where
  "is_space c =
     (let n = (of_char c :: nat)
      in (9 \<le> n \<and> n \<le> 13) \<or> (28 \<le> n \<and> n \<le> 32) \<or> n = 133 \<or> n = 160)"

definition strip :: "string \<Rightarrow> string" where
  "strip s = rev (dropWhile is_space (rev (dropWhile is_space s)))"

fun split_acc :: "string \<Rightarrow> string \<Rightarrow> string list" where
  "split_acc cur [] = (if cur = [] then [] else [rev cur])"
| "split_acc cur (c # cs) =
     (if is_space c then (if cur = [] then split_acc [] cs else rev cur # split_acc [] cs)
      else split_acc (c # cur) cs)"

definition split :: "string \<Rightarrow> string list" where
  "split s = split_acc [] s"

text \<open>\<^verbatim>\<open>str(n)\<close> for an \<^verbatim>\<open>int\<close>, and \<^verbatim>\<open>str.zfill\<close>.\<close>

definition digit_char :: "nat \<Rightarrow> char" where
  "digit_char d = char_of (48 + d)"

fun digits :: "nat \<Rightarrow> string" where
  "digits n = (if n < 10 then [digit_char n] else digits (n div 10) @ [digit_char (n mod 10)])"

definition str_int :: "int \<Rightarrow> string" where
  "str_int i = (if i < 0 then CHR ''-'' # digits (nat (- i)) else digits (nat i))"

definition zfill :: "nat \<Rightarrow> string \<Rightarrow> string" where
  "zfill width s =
     (if length s \<ge> width then s
      else case s of
        c # rest \<Rightarrow>
          (if c = CHR ''+'' \<or> c = CHR ''-''
           then c # replicate (width - length s) CHR ''0'' @ rest
           else replicate (width - length s) CHR ''0'' @ s)
      | [] \<Rightarrow> replicate width CHR ''0'')"

definition is_digit :: "char \<Rightarrow> bool" where
  "is_digit c = (let n = (of_char c :: nat) in 48 \<le> n \<and> n \<le> 57)"

text \<open>Truthiness of an optional string: \<^verbatim>\<open>None\<close> and \<^verbatim>\<open>""\<close> are false.\<close>

fun truthy :: "string option \<Rightarrow> bool" where
  "truthy None = False"
| "truthy (Some s) = (s \<noteq> [])"

section \<open>reference_data.py\<close>

text \<open>
  The catalog tables, in the order of the source. A \<^verbatim>\<open>dict\<close> keeps its insertion order, so
  each table is an association list; the loops below walk it from the front.
\<close>

definition COLOR_MAP :: "(string \<times> string) list" where
  "COLOR_MAP =
    [(''001'', ''Branco''),
     (''002'', ''Vermelho''),
     (''003'', ''Verde''),
     (''004'', ''Castanho''),
     (''005'', ''Amarelo''),
     (''006'', (''Lil'' @ [CHR 0xE1] @ ''s'')),
     (''007'', ''Rosa''),
     (''008'', ''Azul''),
     (''009'', ''Laranja''),
     (''010'', ''Preto''),
     (''011'', ''Cinza''),
     (''012'', ''Bege''),
     (''013'', ''Camel''),
     (''014'', ''Coral''),
     (''015'', ''Chocolate''),
     (''016'', ''Creme''),
     (''017'', ''Dourado''),
     (''018'', ''Gelo''),
     (''019'', (''Gren'' @ [CHR 0xE1])),
     (''020'', ''Turquesa''),
     (''021'', ''Prata''),
     (''022'', (''P'' @ [CHR 0xFA] @ ''rpura'')),
     (''023'', ''Roxo''),
     (''024'', ''Violeta''),
     (''025'', (''Salm'' @ [CHR 0xE3] @ ''o'')),
     (''026'', ''Bronze''),
     (''027'', ''Cereja''),
     (''028'', ''Fucsia''),
     (''029'', ''Marfim''),
     (''030'', ''Tijolo'')]"


text \<open>
  \<^verbatim>\<open>COLOR_CODE_MAP = {v: k for k, v in COLOR_MAP.items()}\<close>. The names are pairwise distinct,
  so the comprehension keeps every entry, in the same order.
\<close>

definition COLOR_CODE_MAP :: "(string \<times> string) list" where
  "COLOR_CODE_MAP = map (\<lambda>(k, v). (v, k)) COLOR_MAP"

definition SIZE_MAP :: "(string \<times> string) list" where
  "SIZE_MAP =
    [(''XS'', ''001''),
     (''S'', ''002''),
     (''M'', ''003''),
     (''L'', ''004''),
     (''XL'', ''005''),
     (''XXL'', ''006''),
     (''XXXL'', ''007''),
     (''31'', ''008''),
     (''32'', ''009''),
     (''33'', ''010''),
     (''34'', ''011''),
     (''35'', ''012''),
     (''36'', ''013''),
     (''37'', ''014''),
     (''38'', ''015''),
     (''39'', ''016''),
     (''40'', ''017''),
     (''42'', ''018''),
     (''44'', ''019''),
     (''46'', ''020''),
     (''48'', ''021''),
     (''50'', ''022''),
     (''52'', ''023''),
     (''54'', ''024''),
     (''56'', ''025''),
     (''58'', ''026''),
     (''2'', ''027''),
     (''4'', ''028''),
     (''6'', ''029''),
     (''8'', ''030''),
     (''10'', ''031''),
     (''12'', ''032''),
     (''14'', ''033''),
     (''16'', ''034''),
     (''TU'', ''035''),
     (''28'', ''036''),
     (''29'', ''037''),
     (''30'', ''038''),
     (''26'', ''039''),
     (''27'', ''040''),
     (''39-40'', ''041''),
     (''41-42'', ''042''),
     (''43-44'', ''043''),
     (''41'', ''044''),
     (''43'', ''045'')]"


definition CATEGORIES :: "string list" where
  "CATEGORIES =
    [''CAMISAS'',
     ''CASACOS'',
     ''VESTIDOS'',
     ''BLUSAS'',
     (''CAL'' @ [CHR 0xC7] @ ''AS''),
     (''CAL'' @ [CHR 0xC7] @ [CHR 0xC3] @ ''O''),
     ''MALHAS'',
     ''SAIAS'',
     ''T-SHIRTS'',
     ''POLOS'',
     ''JEANS'',
     ''SWEATSHIRTS'',
     ''BLAZERS E FATOS'',
     (''BLUS'' @ [CHR 0xD5] @ ''ES E PARKAS''),
     (''CAL'' @ [CHR 0xC7] @ ''ADO''),
     ''TOP'',
     (''ACESS'' @ [CHR 0xD3] @ ''RIOS'')]"


text \<open>
  \<^verbatim>\<open>SUPPLIER_DATA\<close>: code, name (\<^verbatim>\<open>"nome"\<close>) and markup (\<^verbatim>\<open>"marcacao"\<close>, which may be
  \<^verbatim>\<open>None\<close>). A markup is a decimal literal of the source, kept as the rational it denotes.
\<close>

definition SUPPLIER_DATA :: "(string \<times> string \<times> rat option) list" where
  "SUPPLIER_DATA =
    [(''01'', ''GANT'', Some (33 / 20)),
     (''02'', ''HUGO BOSS'', Some (273 / 100)),
     (''03'', (''VANDOMA- Ant'' @ [CHR 0xF3] @ ''nio M. Sousa''), Some 4),
     (''04'', ''ESCORPION'', Some (13 / 5)),
     (''05'', ''MAXMARA'', Some (13 / 5)),
     (''06'', ''MARELLA'', Some (27 / 10)),
     (''07'', ''PAUL & SHARK- DAMA'', Some (5 / 2)),
     (''08'', ''MARCOTEX'', Some (27 / 10)),
     (''09'', ''FLORENTINO COLECCION'', Some (13 / 5)),
     (''10'', ''MEYER- HOSEN'', Some (27 / 10)),
     (''11'', ''DECENIO'', Some (5 / 2)),
     (''12'', ''MIGUEL BELLIDO'', Some 3),
     (''13'', ''LINDENMANN'', Some 3),
     (''15'', ''TOMMY HILFIGER'', Some (49 / 20)),
     (''17'', ''LEBEK FASHION'', Some 3),
     (''18'', ''NAULOVER'', Some (13 / 5)),
     (''20'', ''DIELMAR'', Some (13 / 5)),
     (''22'', ''RALPH LAUREN'', Some (27 / 10)),
     (''23'', ''LVX'', None),
     (''24'', ''LIU.JO'', Some (13 / 5)),
     (''25'', ''PENNYBLACK'', Some (13 / 5)),
     (''26'', ''CB BENNETT'', Some 3),
     (''27'', ''TOMMY HILFIGER- ACESS'', None),
     (''28'', ''REFIVE'', None),
     (''29'', ''MICHAELA LOUISA'', None),
     (''30'', ''COCCINELLE'', Some (261 / 100)),
     (''31'', ''LOVE MOSCHINO- SINV'', Some (13 / 5)),
     (''32'', ''BOUTIQUE MOSCHINO-AEFFE'', Some (13 / 5)),
     (''33'', (''TWINSET- ANDR'' @ [CHR 0xC9] @ '' COSTA''), Some (5 / 2)),
     (''35'', ''MORPHOPOLIS OFICINA DE ARQUITECTURA'', None)]"

text \<open>
  \<^verbatim>\<open>SUPPLIER_MAP = {k: v["nome"] ...}\<close>, \<^verbatim>\<open>SUPPLIER_CODE_MAP = {v: k ...}\<close> (the names
  are pairwise distinct) and \<^verbatim>\<open>SUPPLIER_MAP.values()\<close>.
\<close>

definition SUPPLIER_MAP :: "(string \<times> string) list" where
  "SUPPLIER_MAP = map (\<lambda>(k, nome, marcacao). (k, nome)) SUPPLIER_DATA"

definition SUPPLIER_CODE_MAP :: "(string \<times> string) list" where
  "SUPPLIER_CODE_MAP = map (\<lambda>(k, v). (v, k)) SUPPLIER_MAP"

definition supplier_names :: "string list" where
  "supplier_names = map snd SUPPLIER_MAP"

text \<open>
  The loop shared by \<^verbatim>\<open>get_color_code\<close> and \<^verbatim>\<open>get_supplier_code\<close>:
  \<^verbatim>\<open>for name, code in TABLE.items(): if name.upper() in q or q in name.upper(): return code\<close>,
  with \<open>q\<close> the upper-cased query; falling out of the loop is \<open>None\<close>.
\<close>

fun partial_lookup :: "(string \<times> string) list \<Rightarrow> string \<Rightarrow> string option" where
  "partial_lookup [] q = None"
| "partial_lookup ((name, code) # rest) q =
     (if str_in (upper name) q \<or> str_in q (upper name) then Some code
      else partial_lookup rest q)"

definition get_color_name :: "string \<Rightarrow> string" where
  "get_color_name color_code =
     (case map_of COLOR_MAP color_code of Some name \<Rightarrow> name | None \<Rightarrow> color_code)"

definition get_color_code :: "string \<Rightarrow> string option" where
  "get_color_code color_name =
     (let color_name_upper = upper color_name
      in case map_of COLOR_CODE_MAP color_name of
           Some code \<Rightarrow> Some code
         | None \<Rightarrow> partial_lookup COLOR_CODE_MAP color_name_upper)"

text \<open>
  \<^verbatim>\<open>get_size_code\<close>: the loop after the exact lookup compares with \<^verbatim>\<open>==\<close>:
  \<^verbatim>\<open>for s, code in SIZE_MAP.items(): if s.upper() == size_upper: return code\<close>.
\<close>

fun size_scan :: "(string \<times> string) list \<Rightarrow> string \<Rightarrow> string option" where
  "size_scan [] q = None"
| "size_scan ((s, code) # rest) q = (if upper s = q then Some code else size_scan rest q)"

definition get_size_code :: "string \<Rightarrow> string option" where
  "get_size_code sz =
     (let size_upper = upper sz
      in case map_of SIZE_MAP size_upper of
           Some code \<Rightarrow> Some code
         | None \<Rightarrow> size_scan SIZE_MAP size_upper)"

text \<open>
  \<^verbatim>\<open>get_category\<close>: \<^verbatim>\<open>for category in CATEGORIES: if category in category_upper or
  category_upper in category: return category\<close>.
\<close>

fun category_scan :: "string list \<Rightarrow> string \<Rightarrow> string option" where
  "category_scan [] q = None"
| "category_scan (category # rest) q =
     (if str_in category q \<or> str_in q category then Some category else category_scan rest q)"

definition get_category :: "string \<Rightarrow> string option" where
  "get_category category_name =
     (let category_upper = upper category_name
      in if category_upper \<in> set CATEGORIES then Some category_upper
         else category_scan CATEGORIES category_upper)"

definition get_supplier_code :: "string \<Rightarrow> string option" where
  "get_supplier_code supplier_name =
     (let supplier_upper = upper supplier_name
      in case map_of SUPPLIER_CODE_MAP supplier_name of
           Some code \<Rightarrow> Some code
         | None \<Rightarrow> partial_lookup SUPPLIER_CODE_MAP supplier_upper)"

definition get_markup :: "string \<Rightarrow> rat option" where
  "get_markup supplier_code =
     (let code_str = (if length supplier_code = 1 then zfill 2 supplier_code else supplier_code)
      in case map_of SUPPLIER_DATA code_str of
           Some (nome, marcacao) \<Rightarrow> marcacao
         | None \<Rightarrow> None)"

text \<open>
  The relation of the catalog's fallback search, in the words of the specification: the
  catalog name contains the query or is contained by it, compared without regard to case.
\<close>

definition name_matches :: "string \<Rightarrow> string \<Rightarrow> bool" where
  "name_matches name query =
     (str_in (upper name) (upper query) \<or> str_in (upper query) (upper name))"

section \<open>supplier_utils.py\<close>

text \<open>
  Two standard-library facilities are used by the supplier code and are not part of the
  repository: \<^verbatim>\<open>difflib.SequenceMatcher(None, a, b).ratio()\<close> and the regular-expression
  functions \<^verbatim>\<open>re.sub\<close> and \<^verbatim>\<open>re.match\<close>. They are parameters of the model, gathered in a
  record; every function that reaches one of them takes the record as its first argument.
  The patterns the program passes to \<^verbatim>\<open>re\<close> are named by a datatype:

  \<^item> \<open>Company_Suffix i\<close>, for \<open>i\<close> from 0 to 11, is the \<open>i\<close>-th entry of the list
    \<^verbatim>\<open>suffixes\<close> of \<^verbatim>\<open>normalize_supplier_name\<close> (\<^verbatim>\<open>S.p.A\<close>, \<^verbatim>\<open>S.A\<close>, \<^verbatim>\<open>S.L\<close>, \<^verbatim>\<open>Ltd\<close>,
    \<^verbatim>\<open>Ltda\<close>, \<^verbatim>\<open>Inc\<close>, \<^verbatim>\<open>LLC\<close>, \<^verbatim>\<open>GmbH\<close>, \<^verbatim>\<open>Co\<close>, \<^verbatim>\<open>Corp\<close>, \<^verbatim>\<open>B.V\<close>, \<^verbatim>\<open>A.G\<close>, each
    between word boundaries with an optional final dot), matched with \<^verbatim>\<open>re.IGNORECASE\<close>;
  \<^item> \<open>Not_Word_Or_Space\<close> is the class of characters that are neither word characters nor
    white space;
  \<^item> \<open>Whitespace_Run\<close> is one or more white-space characters;
  \<^item> \<open>Digit_Run\<close> is one or more digits;
  \<^item> \<open>Name_Then_Code\<close> is the pattern of the product-name cleaning: letters and white
    space in group 1, then optionally white space, digits and anything, up to the end.
\<close>

datatype pattern =
    Company_Suffix nat
  | Not_Word_Or_Space
  | Whitespace_Run
  | Digit_Run
  | Name_Then_Code

record pylib =
  ratio :: "string \<Rightarrow> string \<Rightarrow> rat"
  re_sub :: "pattern \<Rightarrow> string \<Rightarrow> string \<Rightarrow> string"
  re_match_group1 :: "pattern \<Rightarrow> string \<Rightarrow> string option"

definition unidentified_supplier :: string where
  "unidentified_supplier = ''Fornecedor n'' @ [CHR 0xE3] @ ''o identificado''"

definition unidentified_brand :: string where
  "unidentified_brand = ''Marca n'' @ [CHR 0xE3] @ ''o identificada''"

definition normalize_supplier_name :: "pylib \<Rightarrow> string \<Rightarrow> string" where
  "normalize_supplier_name L name =
     (if name = [] then []
      else
        let result = upper name;
            result = fold (\<lambda>i r. re_sub L (Company_Suffix i) [] r) [0 ..< 12] result;
            result = re_sub L Not_Word_Or_Space '' '' result;
            result = strip (re_sub L Whitespace_Run '' '' result)
        in result)"

text \<open>
  \<^verbatim>\<open>calculate_similarity_score\<close>. The token sets \<^verbatim>\<open>set(str.split())\<close> are lists without
  repetition; the decimal constants are the rationals they denote.
\<close>

definition significant_pair :: "string \<Rightarrow> string \<Rightarrow> bool" where
  "significant_pair t1 t2 =
     (t1 = t2 \<or> (length t1 \<ge> 4 \<and> str_in t1 t2) \<or> (length t2 \<ge> 4 \<and> str_in t2 t1))"

definition calculate_similarity_score :: "pylib \<Rightarrow> string \<Rightarrow> string \<Rightarrow> rat" where
  "calculate_similarity_score L str1 str2 =
     (let seq_similarity = ratio L str1 str2;
          tokens1 = remdups (split str1);
          tokens2 = remdups (split str2);
          set_similarity =
            (if tokens1 = [] \<or> tokens2 = [] then 0
             else of_nat (length (filter (\<lambda>t. t \<in> set tokens2) tokens1))
                    / of_nat (max (length tokens1) (length tokens2)));
          significant_tokens =
            list_ex (\<lambda>t1. length t1 \<ge> 4 \<and> list_ex (significant_pair t1) tokens2) tokens1;
          token_bonus = (if significant_tokens then 2 / 10 else 0);
          final_score = seq_similarity * (4 / 10) + set_similarity * (4 / 10) + token_bonus
      in min final_score 1)"

text \<open>
  \<^verbatim>\<open>find_most_similar_supplier\<close>. The inner loop
  \<^verbatim>\<open>for token in tokens1: if len(token) >= 4 and token in tokens2: score = max(score, 0.7)\<close>
  is \<open>token_floor\<close>; the loop over the known suppliers, which keeps the first entry with
  the highest score above the running best, is \<open>scan_suppliers\<close>.
\<close>

fun token_floor :: "string list \<Rightarrow> string list \<Rightarrow> rat \<Rightarrow> rat" where
  "token_floor [] tokens2 score = score"
| "token_floor (token # rest) tokens2 score =
     token_floor rest tokens2
       (if length token \<ge> 4 \<and> token \<in> set tokens2 then max score (7 / 10) else score)"

definition supplier_score :: "pylib \<Rightarrow> string \<Rightarrow> string \<Rightarrow> rat" where
  "supplier_score L normalized_supplier supplier =
     token_floor (split normalized_supplier) (split supplier)
       (calculate_similarity_score L normalized_supplier supplier)"

fun scan_suppliers ::
  "pylib \<Rightarrow> string \<Rightarrow> string list \<Rightarrow> string option \<times> rat \<Rightarrow> string option \<times> rat" where
  "scan_suppliers L normalized_supplier [] best = best"
| "scan_suppliers L normalized_supplier (known # rest) (best_match, best_score) =
     (let supplier = normalize_supplier_name L known
      in if supplier = [] then scan_suppliers L normalized_supplier rest (best_match, best_score)
         else
           let score = supplier_score L normalized_supplier supplier
           in if score > best_score
              then scan_suppliers L normalized_supplier rest (Some known, score)
              else scan_suppliers L normalized_supplier rest (best_match, best_score))"

definition find_most_similar_supplier :: "pylib \<Rightarrow> string \<Rightarrow> string option \<times> rat" where
  "find_most_similar_supplier L normalized_supplier =
     (if normalized_supplier = [] then (None, 0)
      else case find (\<lambda>supplier. normalize_supplier_name L supplier = normalized_supplier)
                  supplier_names of
             Some supplier \<Rightarrow> (Some supplier, 1)
           | None \<Rightarrow> scan_suppliers L normalized_supplier supplier_names (None, 0))"

text \<open>
  \<^verbatim>\<open>match_supplier_name\<close> on a string. The body after the first test runs under
  \<^verbatim>\<open>try\<close>; nothing in it raises on a string, so the handler, which returns the argument,
  has no branch here.
\<close>

definition match_supplier_name :: "pylib \<Rightarrow> string \<Rightarrow> string" where
  "match_supplier_name L extracted_supplier =
     (if extracted_supplier = [] \<or> strip extracted_supplier = [] then unidentified_supplier
      else if extracted_supplier \<in> set supplier_names then extracted_supplier
      else
        let normalized_extracted = normalize_supplier_name L extracted_supplier
        in if normalized_extracted = [] then extracted_supplier
           else
             case find_most_similar_supplier L normalized_extracted of
               (Some best_match, similarity) \<Rightarrow>
                 (if best_match \<noteq> [] \<and> similarity > 3 / 10 then best_match
                  else extracted_supplier)
             | (None, similarity) \<Rightarrow> extracted_supplier)"

text \<open>
  \<^verbatim>\<open>get_normalized_supplier\<close>: the code is the first key of \<^verbatim>\<open>SUPPLIER_DATA\<close> whose name
  is the matched name, and otherwise what \<^verbatim>\<open>get_supplier_code\<close> finds.
\<close>

definition supplier_code_of :: "string \<Rightarrow> string option" where
  "supplier_code_of normalized_name =
     (let supplier_code =
            map_option fst (find (\<lambda>(code, nome, marcacao). nome = normalized_name) SUPPLIER_DATA)
      in if \<not> truthy supplier_code then get_supplier_code normalized_name else supplier_code)"

definition get_normalized_supplier :: "pylib \<Rightarrow> string \<Rightarrow> string \<times> string option" where
  "get_normalized_supplier L supplier_name =
     (let normalized_name = match_supplier_name L supplier_name
      in (normalized_name, supplier_code_of normalized_name))"






section \<open>The standard-library functions\<close>

text \<open>
  An instance of the library record, for running the model. \<open>std_ratio\<close> follows
  \<^verbatim>\<open>difflib\<close>: the longest common block, the earliest in the first string and then in the
  second among the longest, then the same to its left and to its right; the ratio is twice
  the matched length over the total length, and 1.0 for two empty strings. (The popularity
  heuristic of \<^verbatim>\<open>difflib\<close> starts at 200 characters and is not modelled.)
\<close>

fun common_prefix_length :: "string \<Rightarrow> string \<Rightarrow> nat" where
  "common_prefix_length (x # xs) (y # ys) = (if x = y then Suc (common_prefix_length xs ys) else 0)"
| "common_prefix_length _ _ = 0"

definition find_longest_match :: "string \<Rightarrow> string \<Rightarrow> nat \<times> nat \<times> nat" where
  "find_longest_match a b =
     fold (\<lambda>(i, j) (besti, bestj, bestsize).
             let k = common_prefix_length (drop i a) (drop j b)
             in if k > bestsize then (i, j, k) else (besti, bestj, bestsize))
          (List.product [0 ..< length a] [0 ..< length b]) (0, 0, 0)"

function matching_size :: "string \<Rightarrow> string \<Rightarrow> nat" where
  "matching_size a b =
     (let m = find_longest_match a b; i = fst m; j = fst (snd m); k = snd (snd m)
      in if k = 0 \<or> length a < i + k \<or> length b < j + k then 0
         else k + matching_size (take i a) (take j b)
                + matching_size (drop (i + k) a) (drop (j + k) b))"
  by pat_completeness auto
termination
  by (relation "measure (\<lambda>(a, b). length a + length b)") auto

definition std_ratio :: "string \<Rightarrow> string \<Rightarrow> rat" where
  "std_ratio a b =
     (if length a + length b = 0 then 1
      else of_nat (2 * matching_size a b) / of_nat (length a + length b))"

text \<open>
  The patterns, read by hand. A word character is a letter, a digit or the underscore.
  A company suffix matches where a word begins, without regard to case, takes the dot after
  it when a word character follows the dot, and must otherwise end where the word ends.
\<close>

definition is_word :: "char \<Rightarrow> bool" where
  "is_word c =
     (let n = (of_char c :: nat)
      in (48 \<le> n \<and> n \<le> 57) \<or> (65 \<le> n \<and> n \<le> 90) \<or> n = 95 \<or> (97 \<le> n \<and> n \<le> 122)
         \<or> n = 170 \<or> n = 178 \<or> n = 179 \<or> n = 181 \<or> n = 185 \<or> n = 186
         \<or> (188 \<le> n \<and> n \<le> 190) \<or> (192 \<le> n \<and> n \<le> 214) \<or> (216 \<le> n \<and> n \<le> 246)
         \<or> 248 \<le> n)"

definition is_ascii_letter :: "char \<Rightarrow> bool" where
  "is_ascii_letter c =
     (let n = (of_char c :: nat) in (65 \<le> n \<and> n \<le> 90) \<or> (97 \<le> n \<and> n \<le> 122))"

definition company_suffixes :: "string list" where
  "company_suffixes =
     [''S.P.A'', ''S.A'', ''S.L'', ''LTD'', ''LTDA'', ''INC'', ''LLC'', ''GMBH'', ''CO'', ''CORP'',
      ''B.V'', ''A.G'']"

definition match_suffix_at :: "string \<Rightarrow> char option \<Rightarrow> string \<Rightarrow> nat option" where
  "match_suffix_at lit prev rest =
     (if (case prev of None \<Rightarrow> False | Some p \<Rightarrow> is_word p)
         \<or> \<not> prefix lit (upper (take (length lit) rest))
      then None
      else case drop (length lit) rest of
             [] \<Rightarrow> Some (length lit)
           | c # cs \<Rightarrow>
               (if c = CHR ''.''
                then (case cs of
                        [] \<Rightarrow> Some (length lit)
                      | d # ds \<Rightarrow> if is_word d then Some (length lit + 1) else Some (length lit))
                else if is_word c then None else Some (length lit)))"

fun sub_suffix :: "string \<Rightarrow> string \<Rightarrow> char option \<Rightarrow> nat \<Rightarrow> string \<Rightarrow> string" where
  "sub_suffix lit repl prev skip [] = []"
| "sub_suffix lit repl prev skip (c # cs) =
     (if skip > 0 then sub_suffix lit repl (Some c) (skip - 1) cs
      else case match_suffix_at lit prev (c # cs) of
             Some m \<Rightarrow> repl @ sub_suffix lit repl (Some c) (m - 1) cs
           | None \<Rightarrow> c # sub_suffix lit repl (Some c) 0 cs)"

fun sub_runs :: "(char \<Rightarrow> bool) \<Rightarrow> string \<Rightarrow> bool \<Rightarrow> string \<Rightarrow> string" where
  "sub_runs P repl in_run [] = []"
| "sub_runs P repl in_run (c # cs) =
     (if P c then (if in_run then sub_runs P repl True cs else repl @ sub_runs P repl True cs)
      else c # sub_runs P repl False cs)"

fun std_re_sub :: "pattern \<Rightarrow> string \<Rightarrow> string \<Rightarrow> string" where
  "std_re_sub (Company_Suffix i) repl s =
     (if i < length company_suffixes then sub_suffix (company_suffixes ! i) repl None 0 s else s)"
| "std_re_sub Not_Word_Or_Space repl s =
     concat (map (\<lambda>c. if is_word c \<or> is_space c then [c] else repl) s)"
| "std_re_sub Whitespace_Run repl s = sub_runs is_space repl False s"
| "std_re_sub Digit_Run repl s = sub_runs is_digit repl False s"
| "std_re_sub Name_Then_Code repl s = s"

fun std_re_match_group1 :: "pattern \<Rightarrow> string \<Rightarrow> string option" where
  "std_re_match_group1 Name_Then_Code s =
     (let run = takeWhile (\<lambda>c. is_ascii_letter c \<or> is_space c) s;
          more = dropWhile (\<lambda>c. is_ascii_letter c \<or> is_space c) s
      in if run = [] then None
         else if more = [] then Some s
         else if length run \<ge> 2 \<and> is_space (last run) \<and> is_digit (hd more)
                 \<and> CHR 0x0A \<notin> set (butlast more)
              then Some (butlast run)
              else None)"
| "std_re_match_group1 _ s = None"

definition stdlib :: pylib where
  "stdlib = \<lparr> ratio = std_ratio, re_sub = std_re_sub, re_match_group1 = std_re_match_group1 \<rparr>"

section \<open>Products\<close>

text \<open>
  A key of a \<^verbatim>\<open>dict\<close> is missing, or present with the value \<^verbatim>\<open>None\<close>, or present with a
  value. \<open>get_or\<close> is \<^verbatim>\<open>d.get(key, default)\<close>, with \<open>None\<close> for Python's \<^verbatim>\<open>None\<close>.
\<close>

datatype 'a field = Missing | Null | Val 'a

fun get_or :: "'a field \<Rightarrow> 'a option \<Rightarrow> 'a option" where
  "get_or Missing dflt = dflt"
| "get_or Null dflt = None"
| "get_or (Val v) dflt = Some v"

definition get :: "'a field \<Rightarrow> 'a option" where
  "get f = get_or f None"

text \<open>
  The product dictionaries, as the page cleaner emits them: \<^verbatim>\<open>colors\<close> and \<^verbatim>\<open>sizes\<close> are
  lists, every size entry has a \<^verbatim>\<open>size\<close> and a numeric \<^verbatim>\<open>quantity\<close>, a price is a
  \<^verbatim>\<open>float\<close> when it is there. Every other key may be missing or \<^verbatim>\<open>None\<close>.
\<close>

record size_info =
  s_size :: string
  s_quantity :: pynum

record color =
  c_color_code :: "string field"
  c_color_name :: "string field"
  c_sizes :: "size_info list"
  c_unit_price :: "pyfloat field"
  c_sales_price :: "pyfloat field"
  c_subtotal :: "pyfloat field"
  c_supplier :: "string field"

record reference =
  r_reference :: string
  r_counter :: int
  r_color_code :: "string option"
  r_color_name :: "string option"
  r_size :: string
  r_quantity :: pynum
  r_description :: "string field"
  r_barcode :: "string field"
  r_supplier :: "string field"

record product =
  p_name :: "string field"
  p_material_code :: "string field"
  p_category :: "string field"
  p_brand :: "string field"
  p_colors :: "color list"
  p_references :: "reference list field"
  p_total_price :: "pynum field"
  p_supplier :: "string field"

section \<open>barcode_generator.py\<close>

datatype error = TypeError | AttributeError

text \<open>
  Truthiness of a value, as \<^verbatim>\<open>not x\<close> tests it. An object of another type is true.
\<close>

fun py_truthy :: "pyval \<Rightarrow> bool" where
  "py_truthy PNone = False"
| "py_truthy (PBool b) = b"
| "py_truthy (PInt i) = (i \<noteq> 0)"
| "py_truthy (PFloat f) = float_truthy f"
| "py_truthy (PStr s) = (s \<noteq> [])"
| "py_truthy (PDict kvs) = (kvs \<noteq> [])"
| "py_truthy (PList xs) = (xs \<noteq> [])"
| "py_truthy (PTuple xs) = (xs \<noteq> [])"
| "py_truthy (PObj ok s) = True"

text \<open>
  \<^verbatim>\<open>generate_barcode\<close> passes its \<^verbatim>\<open>supplier\<close> argument on as it comes. The first test of
  \<^verbatim>\<open>match_supplier_name\<close>, \<^verbatim>\<open>not extracted_supplier or extracted_supplier.strip() == ""\<close>,
  stands before its \<^verbatim>\<open>try\<close>: a false value gives the placeholder, and a true value
  that is not a string has no \<^verbatim>\<open>strip\<close> and raises \<^verbatim>\<open>AttributeError\<close>.
\<close>

fun match_supplier_value :: "pylib \<Rightarrow> pyval \<Rightarrow> error + string" where
  "match_supplier_value L (PStr s) = Inr (match_supplier_name L s)"
| "match_supplier_value L v = (if py_truthy v then Inl AttributeError else Inr unidentified_supplier)"

definition get_normalized_supplier_value :: "pylib \<Rightarrow> pyval \<Rightarrow> error + string \<times> string option" where
  "get_normalized_supplier_value L supplier_name =
     (case match_supplier_value L supplier_name of
        Inl e \<Rightarrow> Inl e
      | Inr normalized_name \<Rightarrow> Inr (normalized_name, supplier_code_of normalized_name))"

text \<open>
  \<^verbatim>\<open>generate_barcode\<close>. The \<^verbatim>\<open>except\<close> branch returns
  \<^verbatim>\<open>f"0001100{str(product_counter).zfill(3)}001001"\<close>.
\<close>

definition dummy_barcode :: "int \<Rightarrow> string" where
  "dummy_barcode product_counter = ''0001100'' @ zfill 3 (str_int product_counter) @ ''001001''"

definition generate_barcode ::
  "pylib \<Rightarrow> pyval \<Rightarrow> int \<Rightarrow> string option \<Rightarrow> string \<Rightarrow> string \<Rightarrow> string" where
  "generate_barcode L supplier product_counter color_code sz season_code =
     (case get_normalized_supplier_value L supplier of
        Inl e \<Rightarrow> dummy_barcode product_counter
      | Inr (normalized_supplier, supplier_code) \<Rightarrow>
          let supplier_code = (case supplier_code of
                                 None \<Rightarrow> ''00''
                               | Some code \<Rightarrow> if code = [] then ''00'' else code);
              supplier_code = zfill 2 supplier_code;
              counter_code = zfill 3 (str_int (100 + min product_counter 899));
              color_code = (case color_code of
                              None \<Rightarrow> ''001''
                            | Some code \<Rightarrow> if code = [] then ''001'' else zfill 3 code);
              size_code = (case get_size_code sz of
                             None \<Rightarrow> ''001''
                           | Some code \<Rightarrow> if code = [] then ''001'' else code);
              size_code = zfill 3 size_code
          in season_code @ supplier_code @ counter_code @ color_code @ size_code)"

text \<open>
  \<^verbatim>\<open>add_barcodes_to_products\<close>. For each product the counter starts again at 0; the two
  loops run over the colours and their sizes, skip a quantity that is \<^verbatim>\<open><= 0\<close>, and build
  a new reference with the keys \<^verbatim>\<open>reference\<close>, \<^verbatim>\<open>counter\<close>, \<^verbatim>\<open>color_code\<close>,
  \<^verbatim>\<open>color_name\<close>, \<^verbatim>\<open>size\<close>, \<^verbatim>\<open>quantity\<close> and \<^verbatim>\<open>barcode\<close>. The list replaces the
  product's \<^verbatim>\<open>references\<close>. \<open>str_opt\<close> is how an f-string prints a value that may be
  \<^verbatim>\<open>None\<close>.
\<close>

fun str_opt :: "string option \<Rightarrow> string" where
  "str_opt None = ''None''"
| "str_opt (Some s) = s"

fun supplier_value :: "string option \<Rightarrow> pyval" where
  "supplier_value None = PNone"
| "supplier_value (Some s) = PStr s"

fun barcode_sizes ::
  "pylib \<Rightarrow> string option \<Rightarrow> string option \<Rightarrow> string option \<Rightarrow> string option \<Rightarrow>
   size_info list \<Rightarrow> int \<Rightarrow> reference list \<times> int" where
  "barcode_sizes L material_code color_code color_name supplier [] counter = ([], counter)"
| "barcode_sizes L material_code color_code color_name supplier (size_info # rest) counter =
     (if num_le_zero (s_quantity size_info)
      then barcode_sizes L material_code color_code color_name supplier rest counter
      else
        let counter = counter + 1;
            reference =
              \<lparr> r_reference = str_opt material_code @ ''.'' @ str_int counter,
                r_counter = counter,
                r_color_code = color_code,
                r_color_name = color_name,
                r_size = s_size size_info,
                r_quantity = s_quantity size_info,
                r_description = Missing,
                r_barcode = Val (generate_barcode L (supplier_value supplier) counter color_code
                                   (s_size size_info) ''00''),
                r_supplier = Missing \<rparr>;
            (refs, final) = barcode_sizes L material_code color_code color_name supplier rest counter
        in (reference # refs, final))"

fun barcode_colors ::
  "pylib \<Rightarrow> string option \<Rightarrow> string option \<Rightarrow> color list \<Rightarrow> int \<Rightarrow> reference list \<times> int" where
  "barcode_colors L material_code brand [] counter = ([], counter)"
| "barcode_colors L material_code brand (color # rest) counter =
     (let color_code = get_or (c_color_code color) (Some []);
          color_name = get_or (c_color_name color) (Some []);
          supplier = get_or (c_supplier color) brand;
          (refs1, counter1) =
            barcode_sizes L material_code color_code color_name supplier (c_sizes color) counter;
          (refs2, counter2) = barcode_colors L material_code brand rest counter1
      in (refs1 @ refs2, counter2))"

definition add_barcodes_to_product :: "pylib \<Rightarrow> product \<Rightarrow> product" where
  "add_barcodes_to_product L product =
     (let material_code = get_or (p_material_code product) (Some []);
          brand = get_or (p_brand product) (Some []);
          references_with_barcodes = fst (barcode_colors L material_code brand (p_colors product) 0)
      in product \<lparr> p_references := Val references_with_barcodes \<rparr>)"

definition add_barcodes_to_products :: "pylib \<Rightarrow> product list \<Rightarrow> product list" where
  "add_barcodes_to_products L products = map (add_barcodes_to_product L) products"

section \<open>supplier_assignment.py\<close>

text \<open>
  The document context, of which the post-processing reads \<^verbatim>\<open>supplier\<close> and \<^verbatim>\<open>brand\<close>.
\<close>

record context_info =
  ctx_supplier :: "string field"
  ctx_brand :: "string field"

datatype source = Supplier_Context | Brand_Context

definition candidates_of :: "context_info \<Rightarrow> (source \<times> string) list" where
  "candidates_of ctx =
     (let supplier_from_context = get_or (ctx_supplier ctx) (Some []);
          brand_from_context = get_or (ctx_brand ctx) (Some [])
      in (case supplier_from_context of
            Some s \<Rightarrow> if s \<noteq> [] \<and> s \<notin> set [[], unidentified_supplier]
                      then [(Supplier_Context, s)] else []
          | None \<Rightarrow> [])
         @ (case brand_from_context of
              Some b \<Rightarrow> if b \<noteq> [] \<and> b \<notin> set [[], unidentified_brand]
                           \<and> brand_from_context \<noteq> supplier_from_context
                        then [(Brand_Context, b)] else []
            | None \<Rightarrow> []))"

text \<open>
  The loop over the candidates keeps \<^verbatim>\<open>best_match\<close>, \<^verbatim>\<open>best_supplier_code\<close> and
  \<^verbatim>\<open>best_score\<close> (\<^verbatim>\<open>best_source\<close> is only logged).
\<close>

fun evaluate_candidates ::
  "pylib \<Rightarrow> (source \<times> string) list \<Rightarrow> string option \<times> string option \<times> rat \<Rightarrow>
   string option \<times> string option \<times> rat" where
  "evaluate_candidates L [] best = best"
| "evaluate_candidates L ((source, candidate) # rest) (best_match, best_supplier_code, best_score) =
     (let matched_supplier = match_supplier_name L candidate;
          supplier_code = get_supplier_code matched_supplier
      in if truthy supplier_code \<and> matched_supplier \<in> set supplier_names
         then
           let score = (if matched_supplier = candidate then 1
                        else if matched_supplier \<in> set supplier_names then 8 / 10
                        else 3 / 10);
               score = (if source = Supplier_Context then score + 1 / 10 else score)
           in if score > best_score
              then evaluate_candidates L rest (Some matched_supplier, supplier_code, score)
              else evaluate_candidates L rest (best_match, best_supplier_code, best_score)
         else evaluate_candidates L rest (best_match, best_supplier_code, best_score))"

definition determine_best_supplier ::
  "pylib \<Rightarrow> context_info \<Rightarrow> string \<times> string option \<times> rat option" where
  "determine_best_supplier L ctx =
     (let candidates = candidates_of ctx
      in if candidates = [] then (unidentified_supplier, None, None)
         else
           case evaluate_candidates L candidates (None, None, 0) of
             (best_match, best_supplier_code, best_score) \<Rightarrow>
               let (final_supplier, supplier_code, markup) =
                     (if truthy best_match
                      then (str_opt best_match, best_supplier_code,
                            (case best_supplier_code of
                               Some code \<Rightarrow> if code \<noteq> [] then get_markup code else None
                             | None \<Rightarrow> None))
                      else (snd (hd candidates), None, None))
               in (final_supplier, supplier_code,
                   (case markup of
                      Some m \<Rightarrow> if m \<noteq> 0 then Some m else Some (273 / 100)
                    | None \<Rightarrow> Some (273 / 100))))"

text \<open>
  \<^verbatim>\<open>assign_supplier_to_products\<close>. A price is true when it is there and is not 0.0. The
  product \<^verbatim>\<open>unit_price * markup\<close> raises \<^verbatim>\<open>TypeError\<close> when \<^verbatim>\<open>markup\<close> is \<^verbatim>\<open>None\<close>, and so
  does the loop over \<^verbatim>\<open>references\<close> when the key holds \<^verbatim>\<open>None\<close>.
\<close>

fun price_truthy :: "pyfloat field \<Rightarrow> bool" where
  "price_truthy (Val f) = float_truthy f"
| "price_truthy _ = False"

fun map_result :: "('a \<Rightarrow> error + 'b) \<Rightarrow> 'a list \<Rightarrow> error + 'b list" where
  "map_result f [] = Inr []"
| "map_result f (x # xs) =
     (case f x of
        Inl e \<Rightarrow> Inl e
      | Inr y \<Rightarrow> (case map_result f xs of Inl e \<Rightarrow> Inl e | Inr ys \<Rightarrow> Inr (y # ys)))"

definition total_quantity_of :: "size_info list \<Rightarrow> pynum" where
  "total_quantity_of sizes = py_sum (map s_quantity sizes)"

definition assign_supplier_to_color :: "string \<Rightarrow> rat option \<Rightarrow> color \<Rightarrow> error + color" where
  "assign_supplier_to_color supplier_name markup color =
     (let color = color \<lparr> c_supplier := Val supplier_name \<rparr>
      in case (if \<not> price_truthy (c_sales_price color) \<and> price_truthy (c_unit_price color)
               then (case (markup, c_unit_price color) of
                       (Some m, Val unit_price) \<Rightarrow>
                         Inr (color \<lparr> c_sales_price := Val (round2 (float_mul unit_price (Finite m))) \<rparr>)
                     | _ \<Rightarrow> Inl TypeError)
               else Inr color) of
           Inl e \<Rightarrow> Inl e
         | Inr color \<Rightarrow>
             (case c_unit_price color of
                Val unit_price \<Rightarrow>
                  if float_truthy unit_price \<and> c_sizes color \<noteq> []
                  then
                    let total_quantity = total_quantity_of (c_sizes color)
                    in if \<not> price_truthy (c_subtotal color) \<and> num_gt_zero total_quantity
                       then Inr (color \<lparr> c_subtotal :=
                                   Val (round2 (float_mul unit_price (to_float total_quantity))) \<rparr>)
                       else Inr color
                  else Inr color
              | _ \<Rightarrow> Inr color))"

definition set_reference_supplier :: "string \<Rightarrow> reference list field \<Rightarrow> error + reference list field" where
  "set_reference_supplier supplier_name refs =
     (case refs of
        Missing \<Rightarrow> Inr Missing
      | Null \<Rightarrow> Inl TypeError
      | Val rs \<Rightarrow> Inr (Val (map (\<lambda>r. r \<lparr> r_supplier := Val supplier_name \<rparr>) rs)))"

definition assign_supplier_to_product :: "string \<Rightarrow> rat option \<Rightarrow> product \<Rightarrow> error + product" where
  "assign_supplier_to_product supplier_name markup product =
     (let product = product \<lparr> p_supplier := Val supplier_name \<rparr>
      in case map_result (assign_supplier_to_color supplier_name markup) (p_colors product) of
           Inl e \<Rightarrow> Inl e
         | Inr colors \<Rightarrow>
             (case set_reference_supplier supplier_name (p_references product) of
                Inl e \<Rightarrow> Inl e
              | Inr refs \<Rightarrow> Inr (product \<lparr> p_colors := colors, p_references := refs \<rparr>)))"

definition assign_supplier_to_products ::
  "product list \<Rightarrow> string \<Rightarrow> rat option \<Rightarrow> error + product list" where
  "assign_supplier_to_products products supplier_name markup =
     (if products = [] then Inr products
      else map_result (assign_supplier_to_product supplier_name markup) products)"

section \<open>gemini_extractor.py: post-processing\<close>

text \<open>
  The state of the loop over the input products of \<^verbatim>\<open>_post_process_products\<close>: the list
  \<^verbatim>\<open>processed_products\<close>, the set \<^verbatim>\<open>seen_material_codes\<close> and the dictionary
  \<^verbatim>\<open>ref_counters\<close>.
\<close>

record post_state =
  processed_products :: "product list"
  seen_material_codes :: "string set"
  ref_counters :: "string \<rightharpoonup> int"

definition initial_state :: post_state where
  "initial_state =
     \<lparr> processed_products = [], seen_material_codes = {}, ref_counters = Map.empty \<rparr>"

text \<open>
  The cleaning of the product name. \<^verbatim>\<open>re.match\<close> on \<^verbatim>\<open>None\<close> raises \<^verbatim>\<open>TypeError\<close>; a
  missing \<^verbatim>\<open>name\<close> is the empty string.
\<close>

definition clean_product_name :: "pylib \<Rightarrow> string \<Rightarrow> string" where
  "clean_product_name L product_name =
     (case re_match_group1 L Name_Then_Code product_name of
        Some group1 \<Rightarrow> strip group1
      | None \<Rightarrow>
          (let clean_name = strip (re_sub L Digit_Run [] product_name)
           in strip (re_sub L Whitespace_Run '' '' clean_name)))"

definition has_valid_colors :: "product \<Rightarrow> bool" where
  "has_valid_colors product = list_ex (\<lambda>color. c_sizes color \<noteq> []) (p_colors product)"

definition accessories :: string where
  "accessories = ''ACESS'' @ [CHR 0xD3] @ ''RIOS''"

definition normalize_category :: "string option \<Rightarrow> string" where
  "normalize_category original_category =
     (let category_upper = (case original_category of
                              Some c \<Rightarrow> if c \<noteq> [] then upper c else []
                            | None \<Rightarrow> [])
      in if list_ex (\<lambda>term. str_in term category_upper) [''POLO'', ''POLOSHIRT''] then ''POLOS''
         else if list_ex (\<lambda>term. str_in term category_upper)
                   [''SWEATER'', ''SWEAT'', ''MALHA'', ''JERSEY''] then ''MALHAS''
         else case category_scan CATEGORIES category_upper of
                Some category \<Rightarrow> if category \<noteq> [] then category else accessories
              | None \<Rightarrow> accessories)"

text \<open>
  The merge of a later occurrence into the product already in the list: the colours whose
  \<^verbatim>\<open>color_code\<close> is true and not yet among the codes are appended, one after the other,
  and \<^verbatim>\<open>total_price\<close> is computed again.
\<close>

fun merge_colors :: "color list \<Rightarrow> string option set \<Rightarrow> color list \<Rightarrow> color list" where
  "merge_colors existing existing_color_codes [] = existing"
| "merge_colors existing existing_color_codes (color # rest) =
     (let color_code = get (c_color_code color)
      in if truthy color_code \<and> color_code \<notin> existing_color_codes
         then merge_colors (existing @ [color]) (insert color_code existing_color_codes) rest
         else merge_colors existing existing_color_codes rest)"

text \<open>
  \<^verbatim>\<open>[color.get("subtotal", 0) for color in colors if color.get("subtotal") is not None]\<close>:
  a missing subtotal counts as the \<^verbatim>\<open>int\<close> 0, a subtotal that is \<^verbatim>\<open>None\<close> is left out.
\<close>

fun subtotal_entry :: "pyfloat field \<Rightarrow> pynum list" where
  "subtotal_entry Missing = [IntNum 0]"
| "subtotal_entry Null = []"
| "subtotal_entry (Val v) = [FloatNum v]"

definition subtotals_of :: "color list \<Rightarrow> pynum list" where
  "subtotals_of colors = concat (map (\<lambda>color. subtotal_entry (c_subtotal color)) colors)"

definition total_price_of :: "color list \<Rightarrow> pynum field" where
  "total_price_of colors =
     (let subtotals = subtotals_of colors
      in if subtotals = [] then Null else Val (py_sum subtotals))"

definition merge_into :: "product \<Rightarrow> product \<Rightarrow> product" where
  "merge_into existing_product product =
     (let existing_color_codes = set (map (\<lambda>c. get (c_color_code c)) (p_colors existing_product));
          colors = merge_colors (p_colors existing_product) existing_color_codes (p_colors product)
      in existing_product \<lparr> p_colors := colors, p_total_price := total_price_of colors \<rparr>)"

fun merge_existing :: "string \<Rightarrow> product \<Rightarrow> product list \<Rightarrow> product list" where
  "merge_existing material_code product [] = []"
| "merge_existing material_code product (existing_product # rest) =
     (if get (p_material_code existing_product) = Some material_code
      then merge_into existing_product product # rest
      else existing_product # merge_existing material_code product rest)"

text \<open>
  The references of a new product: one for every size with a quantity above zero, with
  the counter of the material code, which goes on from where it stands.
\<close>

fun reference_sizes ::
  "string \<Rightarrow> string \<Rightarrow> string option \<Rightarrow> string option \<Rightarrow> size_info list \<Rightarrow> int \<Rightarrow>
   reference list \<times> int" where
  "reference_sizes material_code name color_code color_name [] counter = ([], counter)"
| "reference_sizes material_code name color_code color_name (size_info # rest) counter =
     (if num_le_zero (s_quantity size_info)
      then reference_sizes material_code name color_code color_name rest counter
      else
        let counter = counter + 1;
            reference =
              \<lparr> r_reference = material_code @ ''.'' @ str_int counter,
                r_counter = counter,
                r_color_code = color_code,
                r_color_name = color_name,
                r_size = s_size size_info,
                r_quantity = s_quantity size_info,
                r_description =
                  Val (name @ ''['' @ str_opt color_code @ ''/'' @ s_size size_info @ '']''),
                r_barcode = Missing,
                r_supplier = Missing \<rparr>;
            (refs, final) = reference_sizes material_code name color_code color_name rest counter
        in (reference # refs, final))"

fun reference_colors :: "string \<Rightarrow> string \<Rightarrow> color list \<Rightarrow> int \<Rightarrow> reference list \<times> int" where
  "reference_colors material_code name [] counter = ([], counter)"
| "reference_colors material_code name (color # rest) counter =
     (let color_code = get_or (c_color_code color) (Some []);
          color_name = get_or (c_color_name color) (Some []);
          (refs1, counter1) =
            reference_sizes material_code name color_code color_name (c_sizes color) counter;
          (refs2, counter2) = reference_colors material_code name rest counter1
      in (refs1 @ refs2, counter2))"

text \<open>One turn of the loop \<^verbatim>\<open>for product in products\<close>.\<close>

definition process_product :: "pylib \<Rightarrow> post_state \<Rightarrow> product \<Rightarrow> error + post_state" where
  "process_product L st product =
     (case get (p_material_code product) of
        None \<Rightarrow> Inr st
      | Some material_code \<Rightarrow>
          if material_code = [] then Inr st
          else
            case get_or (p_name product) (Some []) of
              None \<Rightarrow> Inl TypeError
            | Some product_name \<Rightarrow>
                let clean_name = clean_product_name L product_name;
                    product = product \<lparr> p_name := Val clean_name \<rparr>
                in if \<not> has_valid_colors product then Inr st
                   else
                     let normalized_category =
                           normalize_category (get_or (p_category product) (Some []));
                         product = product \<lparr> p_category := Val normalized_category \<rparr>
                     in if material_code \<in> seen_material_codes st
                        then Inr (st \<lparr> processed_products :=
                                     merge_existing material_code product (processed_products st) \<rparr>)
                        else
                          let counter0 = (case ref_counters st material_code of
                                            None \<Rightarrow> 0 | Some k \<Rightarrow> k);
                              (product_references, counter) =
                                reference_colors material_code clean_name (p_colors product) counter0;
                              product = product \<lparr> p_references := Val product_references \<rparr>
                          in Inr \<lparr> processed_products = processed_products st @ [product],
                                   seen_material_codes = insert material_code (seen_material_codes st),
                                   ref_counters = (ref_counters st)(material_code \<mapsto> counter) \<rparr>)"

fun process_products :: "pylib \<Rightarrow> post_state \<Rightarrow> product list \<Rightarrow> error + post_state" where
  "process_products L st [] = Inr st"
| "process_products L st (product # rest) =
     (case process_product L st product of
        Inl e \<Rightarrow> Inl e
      | Inr st' \<Rightarrow> process_products L st' rest)"

text \<open>
  The pass after \<^verbatim>\<open>assign_supplier_to_products\<close>: the brand of the document, when it is
  there and is not the placeholder, and the supplier once more on the product, its colours
  and its references.
\<close>

definition enforce_fields :: "string option \<Rightarrow> string \<Rightarrow> product \<Rightarrow> error + product" where
  "enforce_fields original_brand supplier_name product =
     (let product = (case original_brand of
                       Some b \<Rightarrow> if b \<noteq> [] \<and> b \<notin> set [[], unidentified_brand]
                                 then product \<lparr> p_brand := Val b \<rparr> else product
                     | None \<Rightarrow> product);
          product = product \<lparr> p_supplier := Val supplier_name,
                              p_colors := map (\<lambda>c. c \<lparr> c_supplier := Val supplier_name \<rparr>)
                                            (p_colors product) \<rparr>
      in case set_reference_supplier supplier_name (p_references product) of
           Inl e \<Rightarrow> Inl e
         | Inr refs \<Rightarrow> Inr (product \<lparr> p_references := refs \<rparr>))"

definition material_key :: "product \<Rightarrow> string" where
  "material_key p = (case get_or (p_material_code p) (Some []) of Some s \<Rightarrow> s | None \<Rightarrow> [])"

definition post_process_products ::
  "pylib \<Rightarrow> product list \<Rightarrow> context_info \<Rightarrow> error + product list \<times> string" where
  "post_process_products L products ctx =
     (case determine_best_supplier L ctx of
        (supplier_name, supplier_code, markup) \<Rightarrow>
          let original_brand = get_or (ctx_brand ctx) (Some [])
          in case process_products L initial_state products of
               Inl e \<Rightarrow> Inl e
             | Inr st \<Rightarrow>
                 (case assign_supplier_to_products (processed_products st) supplier_name markup of
                    Inl e \<Rightarrow> Inl e
                  | Inr assigned \<Rightarrow>
                      (case map_result (enforce_fields original_brand supplier_name) assigned of
                         Inl e \<Rightarrow> Inl e
                       | Inr enforced \<Rightarrow>
                           Inr (add_barcodes_to_products L (sort_key material_key enforced),
                                supplier_name))))"

section \<open>A sample document\<close>

text \<open>
  One page with the product \<^verbatim>\<open>M1\<close> in colour \<^verbatim>\<open>008\<close>, a second page with the same
  product in colour \<^verbatim>\<open>009\<close>, and a context that names the supplier.
\<close>

definition sample_color :: "string field \<Rightarrow> (string \<times> int) list \<Rightarrow> pyfloat field \<Rightarrow> color" where
  "sample_color code sizes price =
     \<lparr> c_color_code = code, c_color_name = Missing,
       c_sizes = map (\<lambda>(s, q). \<lparr> s_size = s, s_quantity = IntNum q \<rparr>) sizes,
       c_unit_price = price, c_sales_price = Missing, c_subtotal = Missing,
       c_supplier = Missing \<rparr>"

definition sample_product :: "string field \<Rightarrow> string field \<Rightarrow> color list \<Rightarrow> product" where
  "sample_product name material_code colors =
     \<lparr> p_name = name, p_material_code = material_code, p_category = Missing, p_brand = Missing,
       p_colors = colors, p_references = Missing, p_total_price = Null, p_supplier = Missing \<rparr>"

definition page1 :: product where
  "page1 = sample_product (Val ''Paddy 123456'') (Val ''M1'')
             [sample_color (Val ''008'') [(''M'', 2)] (Val (Finite 50))]"

definition page2 :: product where
  "page2 = sample_product (Val ''Paddy 123456'') (Val ''M1'')
             [sample_color (Val ''009'') [(''L'', 1), (''S'', 0)] (Val (Finite 10))]"

definition sample_context :: context_info where
  "sample_context = \<lparr> ctx_supplier = Val ''Hugo Boss S.p.A.'', ctx_brand = Val ''BOSS'' \<rparr>"

text \<open>A product with sizes and quantities, without a material code and with the name \<^verbatim>\<open>None\<close>.\<close>

definition unnamed_product :: product where
  "unnamed_product = sample_product Null Missing
                       [sample_color (Val ''010'') [(''TU'', 3)] (Val (Finite 20))]"

text \<open>A product with a material code that is there and is not empty.\<close>

definition has_code :: "product \<Rightarrow> bool" where
  "has_code p = (\<exists>mc. p_material_code p = Val mc \<and> mc \<noteq> [])"

text \<open>
  What a reference is made of, for the sizes of a colour that are kept: the colour code,
  the size and the quantity of every size whose quantity is not \<^verbatim>\<open><= 0\<close>, in order.
\<close>

definition kept_sizes :: "color \<Rightarrow> (string option \<times> string \<times> pynum) list" where
  "kept_sizes c = map (\<lambda>s. (get_or (c_color_code c) (Some []), s_size s, s_quantity s))
                    (filter (\<lambda>s. \<not> num_le_zero (s_quantity s)) (c_sizes c))"

text \<open>
  An object that \<^verbatim>\<open>json.dumps\<close> rejects and whose \<^verbatim>\<open>str()\<close> is the empty string,
  anywhere inside a value. \<^verbatim>\<open>str(Exception())\<close> is such an object.
\<close>

fun has_blank_object :: "pyval \<Rightarrow> bool" where
  "has_blank_object (PObj ok s) = (\<not> ok \<and> s = Some [])"
| "has_blank_object (PDict kvs) = (\<exists>kv \<in> set kvs. has_blank_object (snd kv))"
| "has_blank_object (PList xs) = (\<exists>x \<in> set xs. has_blank_object x)"
| "has_blank_object (PTuple xs) = (\<exists>x \<in> set xs. has_blank_object x)"
| "has_blank_object _ = False"

section \<open>Catalog lookups\<close>



lemma partial_lookup_find:
  "partial_lookup table (upper q) = map_option snd (find (\<lambda>e. name_matches (fst e) q) table)"
  by (induction table) (auto simp: name_matches_def)

lemma category_scan_find:
  "category_scan cats q = find (\<lambda>c. str_in c q \<or> str_in q c) cats"
  by (induction cats) auto

lemma categories_upper: "\<forall>c \<in> set CATEGORIES. upper c = c"
  by code_simp

lemma size_scan_none: "map_of table q = None \<Longrightarrow> \<forall>e \<in> set table. upper (fst e) = fst e \<Longrightarrow> size_scan table q = None"
  by (induction table) (auto split: if_splits)


text \<open>
  C9, as the claim states it, fails: \<^verbatim>\<open>get_color_name\<close> has no fallback search and does
  not answer \<^verbatim>\<open>None\<close>. For the code \<^verbatim>\<open>"999"\<close>, which no catalog entry matches exactly or by
  containment, it returns the query itself, as its docstring says.
\<close>

theorem get_color_name_not_none:
  "map_of COLOR_MAP ''999'' = None
   \<and> find (\<lambda>e. name_matches (fst e) ''999'') COLOR_MAP = None
   \<and> get_color_name ''999'' = ''999''"
  by code_simp

text \<open>
  C9, amended. The lookups are total functions of the query string: none of them raises.
  \<^verbatim>\<open>get_color_name\<close> is an exact lookup that returns the query itself when the code is not
  in the catalog. \<^verbatim>\<open>get_color_code\<close>, \<^verbatim>\<open>get_supplier_code\<close> and \<^verbatim>\<open>get_category\<close> return
  the exact match when there is one, otherwise the first catalog entry, in catalog order,
  whose name contains or is contained by the query without regard to case, and \<^verbatim>\<open>None\<close>
  when there is no such entry. \<^verbatim>\<open>get_size_code\<close> returns the code of the catalog key equal
  to the upper-cased query.
\<close>

theorem catalog_lookups:
  "get_color_name q = (case map_of COLOR_MAP q of Some name \<Rightarrow> name | None \<Rightarrow> q)
   \<and> get_color_code q =
     (case map_of COLOR_CODE_MAP q of
        Some code \<Rightarrow> Some code
      | None \<Rightarrow> map_option snd (find (\<lambda>e. name_matches (fst e) q) COLOR_CODE_MAP))
   \<and> get_supplier_code q =
     (case map_of SUPPLIER_CODE_MAP q of
        Some code \<Rightarrow> Some code
      | None \<Rightarrow> map_option snd (find (\<lambda>e. name_matches (fst e) q) SUPPLIER_CODE_MAP))
   \<and> get_category q =
     (if upper q \<in> set CATEGORIES then Some (upper q)
      else find (\<lambda>c. name_matches c q) CATEGORIES)
   \<and> (map_of SIZE_MAP (upper q) = Some code \<longrightarrow> get_size_code q = Some code)"
proof -
  have 1: "get_color_name q = (case map_of COLOR_MAP q of Some name \<Rightarrow> name | None \<Rightarrow> q)"
    by (simp add: get_color_name_def)
  have 2: "get_color_code q =
     (case map_of COLOR_CODE_MAP q of
        Some code \<Rightarrow> Some code
      | None \<Rightarrow> map_option snd (find (\<lambda>e. name_matches (fst e) q) COLOR_CODE_MAP))"
    by (simp add: get_color_code_def partial_lookup_find split: option.split)
  have 3: "get_supplier_code q =
     (case map_of SUPPLIER_CODE_MAP q of
        Some code \<Rightarrow> Some code
      | None \<Rightarrow> map_option snd (find (\<lambda>e. name_matches (fst e) q) SUPPLIER_CODE_MAP))"
    by (simp add: get_supplier_code_def partial_lookup_find split: option.split)
  have "find (\<lambda>c. str_in c (upper q) \<or> str_in (upper q) c) cats = find (\<lambda>c. name_matches c q) cats"
    if "\<forall>c \<in> set cats. upper c = c" for cats
    using that by (induction cats) (auto simp: name_matches_def)
  then have 4: "get_category q =
     (if upper q \<in> set CATEGORIES then Some (upper q)
      else find (\<lambda>c. name_matches c q) CATEGORIES)"
    using categories_upper by (simp add: get_category_def category_scan_find)
  have 5: "map_of SIZE_MAP (upper q) = Some code \<longrightarrow> get_size_code q = Some code"
    by (simp add: get_size_code_def)
  show ?thesis using 1 2 3 4 5 by blast
qed

theorem catalog_lookups_witness:
  "map_of SIZE_MAP (upper ''xl'') = Some ''005'' \<and> get_size_code ''xl'' = Some ''005''
   \<and> get_supplier_code ''boss'' = Some ''02''"
proof -
  have h: "map_of SIZE_MAP (upper ''xl'') = Some ''005''" by code_simp
  have "map_of SIZE_MAP (upper ''xl'') = Some ''005'' \<longrightarrow> get_size_code ''xl'' = Some ''005''"
    using catalog_lookups [of "''xl''" "''005''"] by blast
  moreover have "get_supplier_code ''boss'' = Some ''02''" by code_simp
  ultimately show ?thesis using h by blast
qed

section \<open>Supplier matching\<close>
























section \<open>Barcodes\<close>


declare digits.simps [simp del]

lemma is_digit_digit_char: "d < 10 \<Longrightarrow> is_digit (digit_char d)"
  by (simp add: is_digit_def digit_char_def)

lemma digits_all_digit: "\<forall>c \<in> set (digits n). is_digit c"
proof (induction n rule: digits.induct)
  case (1 n)
  show ?case
  proof (cases "n < 10")
    case True
    then show ?thesis by (subst digits.simps) (simp add: is_digit_digit_char)
  next
    case False
    then show ?thesis using 1 by (subst digits.simps) (simp add: is_digit_digit_char)
  qed
qed

lemma digits_length_3: "100 \<le> n \<Longrightarrow> n < 1000 \<Longrightarrow> length (digits n) = 3"
proof -
  assume a: "100 \<le> n" "n < 1000"
  have 1: "digits n = digits (n div 10) @ [digit_char (n mod 10)]"
    using a by (subst digits.simps) simp
  have 2: "digits (n div 10) = digits (n div 10 div 10) @ [digit_char (n div 10 mod 10)]"
    using a by (subst digits.simps) simp
  have 3: "digits (n div 10 div 10) = [digit_char (n div 10 div 10)]"
    using a by (subst digits.simps) simp
  show ?thesis by (simp add: 1 2 3)
qed

lemma counter_code_3:
  assumes "0 \<le> k"
  shows "length (str_int (100 + min k 899)) = 3
    \<and> (\<forall>c \<in> set (str_int (100 + min k 899)). is_digit c)"
proof -
  have "100 \<le> nat (100 + min k 899)" "nat (100 + min k 899) < 1000"
    using assms by auto
  then have "length (digits (nat (100 + min k 899))) = 3"
    by (rule digits_length_3)
  moreover have "\<not> 100 + min k 899 < 0" using assms by auto
  ultimately show ?thesis using digits_all_digit by (simp add: str_int_def)
qed

lemma zfill_digits:
  assumes "\<forall>c \<in> set s. is_digit c" "length s \<le> w"
  shows "length (zfill w s) = w \<and> (\<forall>c \<in> set (zfill w s). is_digit c)"
proof (cases s)
  case Nil
  then show ?thesis by (cases w) (auto simp: zfill_def is_digit_def)
next
  case (Cons c cs)
  then have "is_digit c" using assms by simp
  then have "c \<noteq> CHR ''+''" "c \<noteq> CHR ''-''" by (auto simp: is_digit_def)
  then show ?thesis using assms Cons by (auto simp: zfill_def is_digit_def)
qed

lemma zfill_long: "length s \<ge> w \<Longrightarrow> zfill w s = s"
  by (simp add: zfill_def)

lemma partial_lookup_in: "partial_lookup table q = Some c \<Longrightarrow> c \<in> snd ` set table"
  by (induction table) (auto split: if_splits)

lemma size_scan_in: "size_scan table q = Some c \<Longrightarrow> c \<in> snd ` set table"
  by (induction table) (auto split: if_splits)

lemma get_supplier_code_in: "get_supplier_code n = Some c \<Longrightarrow> c \<in> snd ` set SUPPLIER_CODE_MAP"
  by (auto simp: get_supplier_code_def Let_def split: option.splits
      dest: partial_lookup_in map_of_SomeD intro: rev_image_eqI)

lemma get_size_code_in: "get_size_code sz = Some c \<Longrightarrow> c \<in> snd ` set SIZE_MAP"
  by (auto simp: get_size_code_def Let_def split: option.splits
      dest: size_scan_in map_of_SomeD intro: rev_image_eqI)

lemma supplier_codes_2: "\<forall>c \<in> snd ` set SUPPLIER_CODE_MAP \<union> fst ` set SUPPLIER_DATA.
    length c = 2 \<and> (\<forall>x \<in> set c. is_digit x)"
  by code_simp

lemma size_codes_3: "\<forall>c \<in> snd ` set SIZE_MAP. length c = 3 \<and> (\<forall>x \<in> set c. is_digit x)"
  by code_simp

lemma find_in_set: "find P xs = Some x \<Longrightarrow> x \<in> set xs"
  by (induction xs) (auto split: if_splits)

lemma supplier_code_of_2:
  assumes "supplier_code_of n = Some c"
  shows "length c = 2 \<and> (\<forall>x \<in> set c. is_digit x)"
proof -
  have "c \<in> snd ` set SUPPLIER_CODE_MAP \<union> fst ` set SUPPLIER_DATA"
  proof (cases "find (\<lambda>(code, nome, marcacao). nome = n) SUPPLIER_DATA")
    case None
    then show ?thesis using assms get_supplier_code_in by (auto simp: supplier_code_of_def)
  next
    case (Some e)
    then have "e \<in> set SUPPLIER_DATA" by (rule find_in_set)
    moreover have "c = fst e \<or> get_supplier_code n = Some c"
      using assms Some by (auto simp: supplier_code_of_def split: if_splits)
    ultimately show ?thesis using get_supplier_code_in by auto
  qed
  then show ?thesis using supplier_codes_2 by blast
qed



text \<open>
  C2, as the claim states it, fails: \<^verbatim>\<open>zfill\<close> pads and never cuts, so a colour code of
  four digits gives a barcode of fourteen characters.
\<close>

theorem barcode_too_long:
  "generate_barcode stdlib (PStr ''GANT'') 1 (Some ''1234'') ''M'' ''00'' = ''00011011234003''
   \<and> length (generate_barcode stdlib (PStr ''GANT'') 1 (Some ''1234'') ''M'' ''00'') \<noteq> 13"
  by code_simp

text \<open>
  C2, amended. When the supplier lookup does not raise, the counter is not negative, the
  season code is two digits and the colour code is absent, empty or at most three digits,
  the barcode is the season code, the two-digit supplier code (\<^verbatim>\<open>"00"\<close> when unresolved),
  the counter code \<^verbatim>\<open>100 + min(counter, 899)\<close>, the colour code padded to three digits
  (\<^verbatim>\<open>"001"\<close> when absent or empty) and the three-digit size code of the catalog
  (\<^verbatim>\<open>"001"\<close> when the size is unknown): thirteen digits. When the supplier lookup raises,
  the result is the dummy code \<^verbatim>\<open>"0001100" + str(counter).zfill(3) + "001001"\<close>.
\<close>

theorem generate_barcode_spec:
  "(get_normalized_supplier_value L supplier = Inr (normalized_supplier, found_code)
      \<and> 0 \<le> product_counter
      \<and> length season_code = 2 \<and> (\<forall>c \<in> set season_code. is_digit c)
      \<and> (\<forall>code. color_code = Some code \<longrightarrow> length code \<le> 3 \<and> (\<forall>c \<in> set code. is_digit c))
    \<longrightarrow> (\<exists>supplier_code counter_code color size_code.
          generate_barcode L supplier product_counter color_code sz season_code
            = season_code @ supplier_code @ counter_code @ color @ size_code
          \<and> supplier_code = (case found_code of None \<Rightarrow> ''00'' | Some code \<Rightarrow> zfill 2 code)
          \<and> length supplier_code = 2
          \<and> counter_code = str_int (100 + min product_counter 899) \<and> length counter_code = 3
          \<and> color = (case color_code of None \<Rightarrow> ''001''
                       | Some code \<Rightarrow> if code = [] then ''001'' else zfill 3 code)
          \<and> length color = 3
          \<and> size_code = (case get_size_code sz of None \<Rightarrow> ''001'' | Some code \<Rightarrow> code)
          \<and> length size_code = 3)
        \<and> length (generate_barcode L supplier product_counter color_code sz season_code) = 13
        \<and> (\<forall>c \<in> set (generate_barcode L supplier product_counter color_code sz season_code).
              is_digit c))
   \<and> (get_normalized_supplier_value L supplier = Inl e
        \<longrightarrow> generate_barcode L supplier product_counter color_code sz season_code
              = ''0001100'' @ zfill 3 (str_int product_counter) @ ''001001'')"
proof (intro conjI impI)
  assume "get_normalized_supplier_value L supplier = Inl e"
  then show "generate_barcode L supplier product_counter color_code sz season_code
              = ''0001100'' @ zfill 3 (str_int product_counter) @ ''001001''"
    by (simp add: generate_barcode_def dummy_barcode_def)
next
  assume a: "get_normalized_supplier_value L supplier = Inr (normalized_supplier, found_code)
      \<and> 0 \<le> product_counter
      \<and> length season_code = 2 \<and> (\<forall>c \<in> set season_code. is_digit c)
      \<and> (\<forall>code. color_code = Some code \<longrightarrow> length code \<le> 3 \<and> (\<forall>c \<in> set code. is_digit c))"
  define supplier_code where "supplier_code = (case found_code of None \<Rightarrow> ''00'' | Some code \<Rightarrow> zfill 2 code)"
  define counter_code where "counter_code = str_int (100 + min product_counter 899)"
  define color where "color = (case color_code of None \<Rightarrow> ''001''
                       | Some code \<Rightarrow> if code = [] then ''001'' else zfill 3 code)"
  define size_code where "size_code = (case get_size_code sz of None \<Rightarrow> ''001'' | Some code \<Rightarrow> code)"
  have fc: "length code = 2 \<and> (\<forall>x \<in> set code. is_digit x)" if "found_code = Some code" for code
  proof -
    obtain n where "supplier_code_of n = found_code"
      using a by (auto simp: get_normalized_supplier_value_def split: sum.splits)
    then show ?thesis using supplier_code_of_2 that by blast
  qed
  have sup: "length supplier_code = 2 \<and> (\<forall>x \<in> set supplier_code. is_digit x)"
    using fc by (auto simp: supplier_code_def zfill_long is_digit_def split: option.splits)
  have sup_eq: "zfill 2 (case found_code of None \<Rightarrow> ''00'' | Some code \<Rightarrow> if code = [] then ''00'' else code)
      = supplier_code"
    using fc by (auto simp: supplier_code_def zfill_long split: option.splits)
  have cnt: "length counter_code = 3 \<and> (\<forall>x \<in> set counter_code. is_digit x)"
  proof -
    have "0 \<le> product_counter" using a by blast
    from counter_code_3[OF this] show ?thesis unfolding counter_code_def by blast
  qed
  have cnt_eq: "zfill 3 (str_int (100 + min product_counter 899)) = counter_code"
    using cnt by (simp add: counter_code_def zfill_long)
  have col: "length color = 3 \<and> (\<forall>x \<in> set color. is_digit x)"
  proof (cases color_code)
    case None
    then show ?thesis by (simp add: color_def is_digit_def)
  next
    case (Some code)
    then have "length code \<le> 3 \<and> (\<forall>c \<in> set code. is_digit c)" using a by blast
    then show ?thesis using Some zfill_digits[of code 3] by (auto simp: color_def is_digit_def)
  qed
  have sz: "length size_code = 3 \<and> (\<forall>x \<in> set size_code. is_digit x)"
    using get_size_code_in[of sz] size_codes_3
    by (auto simp: size_code_def is_digit_def split: option.splits)
  have sz_eq: "zfill 3 (case get_size_code sz of None \<Rightarrow> ''001''
                        | Some code \<Rightarrow> if code = [] then ''001'' else code) = size_code"
    using sz by (auto simp: size_code_def zfill_long split: option.splits)
  have eq: "generate_barcode L supplier product_counter color_code sz season_code
            = season_code @ supplier_code @ counter_code @ color @ size_code"
    using a sup_eq cnt_eq sz_eq by (simp add: generate_barcode_def Let_def color_def)
  show "\<exists>supplier_code counter_code color size_code.
          generate_barcode L supplier product_counter color_code sz season_code
            = season_code @ supplier_code @ counter_code @ color @ size_code
          \<and> supplier_code = (case found_code of None \<Rightarrow> ''00'' | Some code \<Rightarrow> zfill 2 code)
          \<and> length supplier_code = 2
          \<and> counter_code = str_int (100 + min product_counter 899) \<and> length counter_code = 3
          \<and> color = (case color_code of None \<Rightarrow> ''001''
                       | Some code \<Rightarrow> if code = [] then ''001'' else zfill 3 code)
          \<and> length color = 3
          \<and> size_code = (case get_size_code sz of None \<Rightarrow> ''001'' | Some code \<Rightarrow> code)
          \<and> length size_code = 3"
    using eq sup cnt col sz supplier_code_def counter_code_def color_def size_code_def by blast
  show "length (generate_barcode L supplier product_counter color_code sz season_code) = 13"
    using eq sup cnt col sz a by simp
  show "\<forall>c \<in> set (generate_barcode L supplier product_counter color_code sz season_code). is_digit c"
    using eq sup cnt col sz a by auto
qed

theorem generate_barcode_spec_witness:
  "(get_normalized_supplier_value stdlib (PStr ''Hugo Boss S.p.A.'') = Inr (''HUGO BOSS'', Some ''02'')
      \<and> (0::int) \<le> 7
      \<and> length ''00'' = 2 \<and> list_all is_digit ''00''
      \<and> length ''8'' \<le> 3 \<and> list_all is_digit ''8'')
   \<and> generate_barcode stdlib (PStr ''Hugo Boss S.p.A.'') 7 (Some ''8'') ''xl'' ''00'' = ''0002107008005''
   \<and> length (generate_barcode stdlib (PStr ''Hugo Boss S.p.A.'') 7 (Some ''8'') ''xl'' ''00'') = 13
   \<and> get_normalized_supplier_value stdlib (PInt 5) = Inl AttributeError
   \<and> generate_barcode stdlib (PInt 5) 7 (Some ''8'') ''xl'' ''00'' = ''0001100007001001''"
proof -
  have h1: "get_normalized_supplier_value stdlib (PStr ''Hugo Boss S.p.A.'') = Inr (''HUGO BOSS'', Some ''02'')"
    by code_simp
  have h2: "(0::int) \<le> 7 \<and> length ''00'' = 2 \<and> (\<forall>c \<in> set ''00''. is_digit c)"
    by (simp add: is_digit_def)
  have h3: "\<forall>code. Some ''8'' = Some code \<longrightarrow> length code \<le> 3 \<and> (\<forall>c \<in> set code. is_digit c)"
    by (simp add: is_digit_def)
  have h4: "get_normalized_supplier_value stdlib (PInt 5) = Inl AttributeError"
    by code_simp
  have v: "generate_barcode stdlib (PStr ''Hugo Boss S.p.A.'') 7 (Some ''8'') ''xl'' ''00'' = ''0002107008005''"
    by code_simp
  have c1: "length (generate_barcode stdlib (PStr ''Hugo Boss S.p.A.'') 7 (Some ''8'') ''xl'' ''00'') = 13"
    using generate_barcode_spec [of stdlib "PStr ''Hugo Boss S.p.A.''" "''HUGO BOSS''" "Some ''02''" 7
        "''00''" "Some ''8''" "''xl''" AttributeError] h1 h2 h3 by blast
  have c2: "generate_barcode stdlib (PInt 5) 7 (Some ''8'') ''xl'' ''00''
      = ''0001100'' @ zfill 3 (str_int 7) @ ''001001''"
    using generate_barcode_spec [of stdlib "PInt 5" "''HUGO BOSS''" "Some ''02''" 7
        "''00''" "Some ''8''" "''xl''" AttributeError] h4 by blast
  have "zfill 3 (str_int 7) = ''007''" by code_simp
  moreover have "list_all is_digit ''00'' \<and> length ''8'' \<le> 3 \<and> list_all is_digit ''8''"
    by (simp add: is_digit_def)
  ultimately show ?thesis using h1 h2 h4 v c1 c2 by simp
qed


section \<open>Post-processing\<close>


lemma process_product_skip:
  "\<not> truthy (get (p_material_code p)) \<Longrightarrow> process_product L st p = Inr st"
  by (cases "get (p_material_code p)") (auto simp: process_product_def)

lemma process_products_filter:
  "process_products L st (filter (\<lambda>p. truthy (get (p_material_code p))) ps)
     = process_products L st ps"
proof (induction ps arbitrary: st)
  case Nil
  then show ?case by simp
next
  case (Cons p ps)
  show ?case
  proof (cases "truthy (get (p_material_code p))")
    case True
    then show ?thesis using Cons by (simp split: sum.splits)
  next
    case False
    then show ?thesis using Cons process_product_skip[OF False] by simp
  qed
qed

lemma get_Some_Val: "get f = Some v \<longleftrightarrow> f = Val v"
  by (cases f) (auto simp: get_def)

lemma merge_existing_has_code:
  "list_all has_code xs \<Longrightarrow> list_all has_code (merge_existing mc p xs)"
  by (induction xs) (auto simp: has_code_def merge_into_def Let_def)

lemma process_product_has_code:
  assumes "process_product L st p = Inr st'" "list_all has_code (processed_products st)"
  shows "list_all has_code (processed_products st')"
proof (cases "get (p_material_code p)")
  case None
  then show ?thesis using assms by (simp add: process_product_def)
next
  case (Some mc)
  then have v: "p_material_code p = Val mc" by (simp add: get_Some_Val)
  show ?thesis
  proof (cases "mc = []")
    case True
    then show ?thesis using assms Some by (simp add: process_product_def)
  next
    case False
    then show ?thesis using assms Some v merge_existing_has_code
      by (auto simp: process_product_def Let_def has_code_def
          split: option.splits if_splits prod.splits)
  qed
qed

lemma process_products_has_code:
  "process_products L st ps = Inr st' \<Longrightarrow> list_all has_code (processed_products st)
   \<Longrightarrow> list_all has_code (processed_products st')"
proof (induction ps arbitrary: st)
  case Nil
  then show ?case by simp
next
  case (Cons p ps)
  then show ?case using process_product_has_code
    by (auto split: sum.splits)
qed

lemma map_result_all2:
  "map_result f xs = Inr ys \<Longrightarrow> list_all2 (\<lambda>x y. f x = Inr y) xs ys"
  by (induction xs arbitrary: ys) (auto split: sum.splits)



lemma assign_supplier_keeps_code:
  "assign_supplier_to_product s m p = Inr q \<Longrightarrow> p_material_code q = p_material_code p"
  by (auto simp: assign_supplier_to_product_def Let_def split: sum.splits)

lemma enforce_fields_keeps_code:
  "enforce_fields b s p = Inr q \<Longrightarrow> p_material_code q = p_material_code p"
  by (auto simp: enforce_fields_def Let_def split: sum.splits option.splits if_splits)

lemma all2_has_code:
  "list_all2 (\<lambda>x y. f x = Inr y) xs ys \<Longrightarrow> (\<And>x y. f x = Inr y \<Longrightarrow> p_material_code y = p_material_code x)
   \<Longrightarrow> list_all has_code xs \<Longrightarrow> list_all has_code ys"
  by (induction xs ys rule: list_all2_induct) (auto simp: has_code_def)

lemma assign_products_has_code:
  assumes "assign_supplier_to_products ps s m = Inr qs" "list_all has_code ps"
  shows "list_all has_code qs"
proof (cases "ps = []")
  case True
  then show ?thesis using assms by (simp add: assign_supplier_to_products_def)
next
  case False
  then have "map_result (assign_supplier_to_product s m) ps = Inr qs"
    using assms by (simp add: assign_supplier_to_products_def)
  from all2_has_code[OF map_result_all2[OF this] assign_supplier_keeps_code assms(2)]
  show ?thesis .
qed

lemma enforce_has_code:
  assumes "map_result (enforce_fields b s) ps = Inr qs" "list_all has_code ps"
  shows "list_all has_code qs"
  using all2_has_code[OF map_result_all2[OF assms(1)] enforce_fields_keeps_code assms(2)] .

lemma add_barcodes_keeps:
  "p_material_code (add_barcodes_to_product L p) = p_material_code p"
  "p_colors (add_barcodes_to_product L p) = p_colors p"
  "p_supplier (add_barcodes_to_product L p) = p_supplier p"
  by (simp_all add: add_barcodes_to_product_def Let_def)

text \<open>What the post-processing hands to the barcode generator.\<close>

lemma post_process_shape:
  assumes "post_process_products L ps ctx = Inr (out, s)"
  shows "\<exists>qs. out = map (add_barcodes_to_product L) qs \<and> list_all has_code qs"
proof -
  obtain sn sc mk where d: "determine_best_supplier L ctx = (sn, sc, mk)"
    by (cases "determine_best_supplier L ctx") auto
  obtain st where st: "process_products L initial_state ps = Inr st"
    using assms d by (auto simp: post_process_products_def Let_def split: sum.splits)
  obtain assigned where a: "assign_supplier_to_products (processed_products st) sn mk = Inr assigned"
    using assms d st by (auto simp: post_process_products_def Let_def split: sum.splits)
  obtain enforced where e: "map_result (enforce_fields (get_or (ctx_brand ctx) (Some [])) sn) assigned = Inr enforced"
    using assms d st a by (auto simp: post_process_products_def Let_def split: sum.splits)
  have out: "out = add_barcodes_to_products L (sort_key material_key enforced)"
    using assms d st a e by (auto simp: post_process_products_def Let_def)
  have "list_all has_code (processed_products st)"
    using process_products_has_code[OF st] by (simp add: initial_state_def)
  then have "list_all has_code assigned" using assign_products_has_code[OF a] by blast
  then have "list_all has_code enforced" using enforce_has_code[OF e] by blast
  then have "list_all has_code (sort_key material_key enforced)"
    by (simp add: list_all_iff)
  then show ?thesis using out by (auto simp: add_barcodes_to_products_def)
qed

text \<open>
  C10. A product whose \<^verbatim>\<open>material_code\<close> is missing, \<^verbatim>\<open>None\<close> or empty is left out before
  anything else is done with it: the result, an error included, is the result for the
  input without these products, whatever their names, colours and sizes are. Every product
  of the output has a material code that is not empty.
\<close>

theorem products_without_code_dropped:
  "post_process_products L products ctx
     = post_process_products L (filter (\<lambda>p. truthy (get (p_material_code p))) products) ctx
   \<and> (post_process_products L products ctx = Inr (out, supplier_name)
        \<longrightarrow> (\<forall>p \<in> set out. \<exists>material_code. p_material_code p = Val material_code
                                   \<and> material_code \<noteq> []))"
proof
  show "post_process_products L products ctx
     = post_process_products L (filter (\<lambda>p. truthy (get (p_material_code p))) products) ctx"
    by (simp add: post_process_products_def process_products_filter)
  show "post_process_products L products ctx = Inr (out, supplier_name)
        \<longrightarrow> (\<forall>p \<in> set out. \<exists>material_code. p_material_code p = Val material_code
                                   \<and> material_code \<noteq> [])"
  proof
    assume "post_process_products L products ctx = Inr (out, supplier_name)"
    from post_process_shape[OF this] obtain qs where
      "out = map (add_barcodes_to_product L) qs" "list_all has_code qs" by blast
    then show "\<forall>p \<in> set out. \<exists>material_code. p_material_code p = Val material_code
                                   \<and> material_code \<noteq> []"
      by (auto simp: list_all_iff has_code_def add_barcodes_keeps)
  qed
qed


section \<open>References\<close>


lemma barcode_sizes_spec:
  assumes "barcode_sizes L mc cc cn spl sizes k = (refs, final)"
  shows "final = k + int (length refs)
     \<and> (\<forall>i < length refs. r_counter (refs ! i) = k + 1 + int i)
     \<and> (\<forall>r \<in> set refs. r_reference r = str_opt mc @ ''.'' @ str_int (r_counter r)
            \<and> r_supplier r = Missing \<and> r_color_code r = cc)
     \<and> map (\<lambda>r. (r_size r, r_quantity r)) refs
         = map (\<lambda>s. (s_size s, s_quantity s)) (filter (\<lambda>s. \<not> num_le_zero (s_quantity s)) sizes)"
  using assms
proof (induction sizes arbitrary: k refs final)
  case Nil
  then show ?case by simp
next
  case (Cons s sizes)
  show ?case
  proof (cases "num_le_zero (s_quantity s)")
    case True
    then show ?thesis using Cons by simp
  next
    case False
    obtain refs' final' where r: "barcode_sizes L mc cc cn spl sizes (k + 1) = (refs', final')"
      by (cases "barcode_sizes L mc cc cn spl sizes (k + 1)") auto
    note ih = Cons.IH[OF r]
    obtain r0 where refs: "refs = r0 # refs'" and fin: "final = final'"
      and r0: "r_counter r0 = k + 1" "r_reference r0 = str_opt mc @ ''.'' @ str_int (k + 1)"
        "r_supplier r0 = Missing" "r_color_code r0 = cc" "r_size r0 = s_size s"
        "r_quantity r0 = s_quantity s"
      using Cons.prems False r by (auto simp: Let_def)
    have "\<forall>i < length refs. r_counter (refs ! i) = k + 1 + int i"
    proof (intro allI impI)
      fix i assume "i < length refs"
      then show "r_counter (refs ! i) = k + 1 + int i"
        using ih r0 refs by (cases i) auto
    qed
    then show ?thesis using ih r0 refs fin False by auto
  qed
qed

lemma barcode_colors_spec:
  assumes "barcode_colors L mc brand colors k = (refs, final)"
  shows "final = k + int (length refs)
     \<and> (\<forall>i < length refs. r_counter (refs ! i) = k + 1 + int i)
     \<and> (\<forall>r \<in> set refs. r_reference r = str_opt mc @ ''.'' @ str_int (r_counter r)
            \<and> r_supplier r = Missing)
     \<and> map (\<lambda>r. (r_color_code r, r_size r, r_quantity r)) refs = concat (map kept_sizes colors)"
  using assms
proof (induction colors arbitrary: k refs final)
  case Nil
  then show ?case by simp
next
  case (Cons c colors)
  obtain refs1 k1 where 1: "barcode_sizes L mc (get_or (c_color_code c) (Some []))
      (get_or (c_color_name c) (Some [])) (get_or (c_supplier c) brand) (c_sizes c) k = (refs1, k1)"
    by (cases "barcode_sizes L mc (get_or (c_color_code c) (Some []))
      (get_or (c_color_name c) (Some [])) (get_or (c_supplier c) brand) (c_sizes c) k") auto
  obtain refs2 k2 where 2: "barcode_colors L mc brand colors k1 = (refs2, k2)"
    by (cases "barcode_colors L mc brand colors k1") auto
  note s1 = barcode_sizes_spec[OF 1]
  note s2 = Cons.IH[OF 2]
  have refs: "refs = refs1 @ refs2" and fin: "final = k2"
    using Cons.prems 1 2 by (auto simp: Let_def)
  have cnt: "\<forall>i < length refs. r_counter (refs ! i) = k + 1 + int i"
  proof (intro allI impI)
    fix i assume "i < length refs"
    then show "r_counter (refs ! i) = k + 1 + int i"
      using s1 s2 refs by (cases "i < length refs1") (auto simp: nth_append)
  qed
  have "map (\<lambda>r. (r_color_code r, r_size r, r_quantity r)) refs1 = kept_sizes c"
  proof -
    have "map (\<lambda>r. (r_color_code r, r_size r, r_quantity r)) refs1
        = map (\<lambda>r. (get_or (c_color_code c) (Some []), r_size r, r_quantity r)) refs1"
      using s1 by auto
    also have "\<dots> = map (\<lambda>p. (get_or (c_color_code c) (Some []), fst p, snd p))
                       (map (\<lambda>r. (r_size r, r_quantity r)) refs1)"
      by simp
    also have "\<dots> = kept_sizes c"
      using s1 by (simp add: kept_sizes_def)
    finally show ?thesis .
  qed
  then show ?case using s1 s2 refs fin cnt by auto
qed



section \<open>Sanitising twice\<close>

declare sanitize_for_json.simps [simp del]

lemma sanitize_too_deep:
  "d > md \<Longrightarrow> sanitize_for_json dn ds md d obj = PNone"
  by (subst sanitize_for_json.simps) simp

lemma sanitize_leaf:
  "sanitize_for_json dn ds md d PNone = PNone"
  "\<not> d > md \<Longrightarrow> sanitize_for_json dn ds md d (PBool b) = PBool b"
  "\<not> d > md \<Longrightarrow> sanitize_for_json dn ds md d (PInt i) = PInt i"
  "\<not> d > md \<Longrightarrow> sanitize_for_json dn ds md d (PFloat f) =
     (if isnan f \<or> isinf f then PFloat dn else PFloat f)"
  "\<not> d > md \<Longrightarrow> sanitize_for_json dn ds md d (PStr s) = (if s = [] then PStr ds else PStr s)"
  "\<not> d > md \<Longrightarrow> sanitize_for_json dn ds md d (PObj ok so) =
     (if ok then PObj ok so else case so of Some t \<Rightarrow> PStr t | None \<Rightarrow> PNone)"
  by (subst sanitize_for_json.simps, simp)+

lemma sanitize_container:
  "\<not> d > md \<Longrightarrow> sanitize_for_json dn ds md d (PDict kvs) =
     PDict (map (\<lambda>kv. (fst kv, sanitize_for_json dn ds md (d + 1) (snd kv))) kvs)"
  "\<not> d > md \<Longrightarrow> sanitize_for_json dn ds md d (PList xs) =
     PList (map (sanitize_for_json dn ds md (d + 1)) xs)"
  "\<not> d > md \<Longrightarrow> sanitize_for_json dn ds md d (PTuple xs) =
     PList (map (sanitize_for_json dn ds md (d + 1)) xs)"
  by (subst sanitize_for_json.simps, simp)+

text \<open>
  C7, as the claim states it, fails: with \<^verbatim>\<open>default_str = "N/A"\<close>, an object that is not
  serialisable and whose \<^verbatim>\<open>str()\<close> is empty is first replaced by \<^verbatim>\<open>""\<close>, and the second
  pass replaces that empty string by \<^verbatim>\<open>"N/A"\<close>.
\<close>

theorem sanitize_not_idempotent:
  "sanitize_for_json (Finite 0) ''N/A'' 100 0
     (sanitize_for_json (Finite 0) ''N/A'' 100 0 (PObj False (Some [])))
   \<noteq> sanitize_for_json (Finite 0) ''N/A'' 100 0 (PObj False (Some []))"
  by (simp add: sanitize_leaf)

text \<open>
  C7, amended: for every value, every \<^verbatim>\<open>default_number\<close>, every \<^verbatim>\<open>max_depth\<close> and every
  depth, sanitising the output of \<^verbatim>\<open>sanitize_for_json\<close> again returns it unchanged, provided
  \<^verbatim>\<open>default_str\<close> is the empty string (the default, and the value at every call site) or
  the value holds no unserialisable object whose \<^verbatim>\<open>str()\<close> is empty.
\<close>

theorem sanitize_idempotent:
  assumes "default_str = [] \<or> \<not> has_blank_object obj"
  shows "sanitize_for_json dn default_str md d (sanitize_for_json dn default_str md d obj)
     = sanitize_for_json dn default_str md d obj"
proof (cases "d > md")
  case True
  then show ?thesis by (simp add: sanitize_too_deep)
next
  case False
  then show ?thesis using assms
  proof (induction obj arbitrary: d)
    case (PFloat f)
    then show ?case by (cases dn; simp add: sanitize_leaf)
  next
    case (PDict kvs)
    have "sanitize_for_json dn default_str md (d + 1) (sanitize_for_json dn default_str md (d + 1) (snd kv))
        = sanitize_for_json dn default_str md (d + 1) (snd kv)" if "kv \<in> set kvs" for kv
    proof (cases "d + 1 > md")
      case True
      then show ?thesis by (simp add: sanitize_too_deep)
    next
      case False
      moreover have "snd kv \<in> Basic_BNFs.snds kv" by (cases kv) (simp add: snds.simps)
      ultimately show ?thesis using PDict.IH[OF that, of "snd kv" "d + 1"] PDict.prems(2) that
        by auto
    qed
    then show ?case using PDict.prems(1) by (simp add: sanitize_container)
  next
    case (PList xs)
    have "sanitize_for_json dn default_str md (d + 1) (sanitize_for_json dn default_str md (d + 1) x)
        = sanitize_for_json dn default_str md (d + 1) x" if "x \<in> set xs" for x
    proof (cases "d + 1 > md")
      case True
      then show ?thesis by (simp add: sanitize_too_deep)
    next
      case False
      then show ?thesis using PList.IH[OF that, of "d + 1"] PList.prems(2) that by auto
    qed
    then show ?case using PList.prems(1) by (simp add: sanitize_container)
  next
    case (PTuple xs)
    have "sanitize_for_json dn default_str md (d + 1) (sanitize_for_json dn default_str md (d + 1) x)
        = sanitize_for_json dn default_str md (d + 1) x" if "x \<in> set xs" for x
    proof (cases "d + 1 > md")
      case True
      then show ?thesis by (simp add: sanitize_too_deep)
    next
      case False
      then show ?thesis using PTuple.IH[OF that, of "d + 1"] PTuple.prems(2) that by auto
    qed
    then show ?case using PTuple.prems(1) by (simp add: sanitize_container)
  next
    case (PObj ok s)
    then show ?case by (cases s; auto simp add: sanitize_leaf)
  qed (simp_all add: sanitize_leaf)
qed

theorem sanitize_idempotent_witness:
  "(''N/A'' = [] \<or> \<not> has_blank_object (PDict [(''price'', PFloat NaN), (''tags'', PTuple [PStr [], PInt 3])]))
   \<and> sanitize_for_json (Finite 0) ''N/A'' 100 0
       (sanitize_for_json (Finite 0) ''N/A'' 100 0
         (PDict [(''price'', PFloat NaN), (''tags'', PTuple [PStr [], PInt 3])]))
     = PDict [(''price'', PFloat (Finite 0)), (''tags'', PList [PStr ''N/A'', PInt 3])]"
proof -
  have h: "''N/A'' = [] \<or> \<not> has_blank_object (PDict [(''price'', PFloat NaN), (''tags'', PTuple [PStr [], PInt 3])])"
    by simp
  have v: "sanitize_for_json (Finite 0) ''N/A'' 100 0
             (PDict [(''price'', PFloat NaN), (''tags'', PTuple [PStr [], PInt 3])])
           = PDict [(''price'', PFloat (Finite 0)), (''tags'', PList [PStr ''N/A'', PInt 3])]"
    by (simp add: sanitize_leaf sanitize_container)
  show ?thesis using h v sanitize_idempotent [OF h, of "Finite 0" 100 0] by simp
qed

end
